theory Spec2Isabelle
  imports Main "HOL-Library.Sublist"
begin

section \<open>Python values, strings and paths\<close>

text \<open>
  The build driver \<^verbatim>\<open>scripts/b2g_build.py\<close> is a Python 2 script. Its stages are
  modelled as functions from an immutable environment and a mutable run state to an
  outcome and the new state. An exception is an outcome, not a hidden failure.
\<close>

datatype py_error = KeyError | IndexError | TypeError | ValueError | OSError

text \<open>
  \<open>Ok\<close>: the call returned. \<open>Fatal c\<close>: \<^verbatim>\<open>self.fatal(msg, exit_code=c)\<close> ended the
  run with exit code \<open>c\<close>. \<open>Raise x\<close>: a Python exception left the call.
\<close>

datatype 'a result = Ok 'a | Fatal int | Raise py_error

text \<open>Values loaded from the scheduler's JSON properties file.\<close>

datatype json =
    JNull
  | JBool bool
  | JNum int
  | JStr string
  | JArr "json list"
  | JObj "(string \<times> json) list"

definition is_space :: "char \<Rightarrow> bool" where
  "is_space c = (c = CHR '' '' \<or> c = CHR 0x09 \<or> c = CHR 0x0A \<or> c = CHR 0x0B
                 \<or> c = CHR 0x0C \<or> c = CHR 0x0D)"

definition is_digit :: "char \<Rightarrow> bool" where
  "is_digit c = (48 \<le> (of_char c :: nat) \<and> (of_char c :: nat) \<le> 57)"

definition digit_val :: "char \<Rightarrow> nat" where
  "digit_val c = of_char c - 48"

definition digit_char :: "nat \<Rightarrow> char" where
  "digit_char d = char_of (48 + d)"

text \<open>\<^verbatim>\<open>str(n)\<close> of an integer: its decimal digits, with a minus sign when negative.\<close>

fun str_nat :: "nat \<Rightarrow> string" where
  "str_nat n = (if n < 10 then [digit_char n] else str_nat (n div 10) @ [digit_char (n mod 10)])"

definition str_int :: "int \<Rightarrow> string" where
  "str_int i = (if i < 0 then CHR ''-'' # str_nat (nat (- i)) else str_nat (nat i))"

text \<open>\<^verbatim>\<open>s.strip()\<close>: leading and trailing whitespace removed.\<close>

definition strip :: "string \<Rightarrow> string" where
  "strip s = rev (dropWhile is_space (rev (dropWhile is_space s)))"

definition decimal :: "string \<Rightarrow> int option" where
  "decimal ds = (if ds \<noteq> [] \<and> list_all is_digit ds
                 then Some (int (foldl (\<lambda>a c. 10 * a + digit_val c) 0 ds)) else None)"

text \<open>
  \<^verbatim>\<open>int(s)\<close> of a string, as the language reference gives it: a decimal number, possibly
  signed, possibly embedded in whitespace. \<open>None\<close> stands for the \<^verbatim>\<open>ValueError\<close>.
\<close>

definition py_int :: "string \<Rightarrow> int option" where
  "py_int s =
     (case strip s of
        [] \<Rightarrow> None
      | c # r \<Rightarrow>
          if c = CHR ''-'' then map_option uminus (decimal r)
          else if c = CHR ''+'' then decimal r
          else decimal (c # r))"

text \<open>\<^verbatim>\<open>s.endswith(t)\<close> and \<^verbatim>\<open>s.startswith(t)\<close>.\<close>

definition endswith :: "string \<Rightarrow> string \<Rightarrow> bool" where
  "endswith s t = (length t \<le> length s \<and> drop (length s - length t) s = t)"

definition startswith :: "string \<Rightarrow> string \<Rightarrow> bool" where
  "startswith s t = (take (length t) s = t)"

text \<open>\<^verbatim>\<open>os.path.join(a, *p)\<close> of \<^verbatim>\<open>posixpath\<close>.\<close>

definition join2 :: "string \<Rightarrow> string \<Rightarrow> string" where
  "join2 path b =
     (if startswith b ''/'' then b
      else if path = [] \<or> endswith path ''/'' then path @ b
      else path @ ''/'' @ b)"

definition path_join :: "string \<Rightarrow> string list \<Rightarrow> string" where
  "path_join a p = foldl join2 a p"

text \<open>\<^verbatim>\<open>os.path.basename(p)\<close>: what follows the last slash.\<close>

definition basename :: "string \<Rightarrow> string" where
  "basename p = rev (takeWhile (\<lambda>c. c \<noteq> CHR ''/'') (rev p))"

text \<open>\<^verbatim>\<open>s.split(sep)\<close> for a one-character separator: empty fields are kept.\<close>

fun split_on :: "char \<Rightarrow> string \<Rightarrow> string list" where
  "split_on sep [] = [[]]"
| "split_on sep (c # cs) =
     (if c = sep then [] # split_on sep cs
      else (case split_on sep cs of
              [] \<Rightarrow> [[c]]
            | w # ws \<Rightarrow> (c # w) # ws))"

text \<open>
  Subscripting \<^verbatim>\<open>v[k]\<close> of a JSON value by a string key and \<^verbatim>\<open>v[i]\<close> by a
  non-negative index. A missing key is a \<^verbatim>\<open>KeyError\<close>, an index out of range an
  \<^verbatim>\<open>IndexError\<close>; a value that cannot be subscripted that way is a \<^verbatim>\<open>TypeError\<close>.
\<close>

definition dict_get :: "(string \<times> json) list \<Rightarrow> string \<Rightarrow> json result" where
  "dict_get d k = (case map_of d k of None \<Rightarrow> Raise KeyError | Some v \<Rightarrow> Ok v)"

fun getitem :: "json \<Rightarrow> string \<Rightarrow> json result" where
  "getitem (JObj d) k = dict_get d k"
| "getitem _ k = Raise TypeError"

fun getindex :: "json \<Rightarrow> nat \<Rightarrow> json result" where
  "getindex (JArr xs) i = (if i < length xs then Ok (xs ! i) else Raise IndexError)"
| "getindex (JStr s) i = (if i < length s then Ok (JStr [s ! i]) else Raise IndexError)"
| "getindex (JObj d) i = Raise KeyError"
| "getindex _ i = Raise TypeError"

section \<open>The run: configuration, environment, state\<close>

text \<open>
  The keys of \<^verbatim>\<open>self.config\<close> that the modelled stages read. \<^verbatim>\<open>__init__\<close> gives each a
  default (\<^verbatim>\<open>None\<close> for the upload settings) except \<^verbatim>\<open>target\<close>, which
  \<^verbatim>\<open>_pre_config_lock\<close> requires, and \<^verbatim>\<open>update\<close>, read with \<^verbatim>\<open>config.get\<close>.
\<close>

record update_cfg =
  base_url :: string
  u_ssh_key :: string
  u_ssh_user :: string
  u_upload_remote_host :: string
  u_upload_remote_basepath :: string
  autopublish :: bool

record run_config =
  target :: string
  repo :: string
  tools_repo :: string
  enable_try_uploads :: bool
  ssh_key :: "string option"
  ssh_user :: "string option"
  upload_remote_host :: "string option"
  upload_remote_basepath :: "string option"
  update :: "update_cfg option"
  gecko_config_file :: "string option"

text \<open>The directory map \<^verbatim>\<open>self.abs_dirs\<close>, cached by \<^verbatim>\<open>query_abs_dirs\<close> in \<^verbatim>\<open>__init__\<close>.\<close>

record dirs =
  base_work_dir :: string
  abs_work_dir :: string
  abs_upload_dir :: string
  src :: string
  work_dir :: string

text \<open>The product descriptor (\<^verbatim>\<open>config.json\<close> of the gecko checkout), as far as it is read.\<close>

record gecko_cfg =
  zip_files :: "string list"
  upload_files :: "string list"
  mock_target :: "string option"
  mock_packages :: "string list option"
  mock_files :: "(string \<times> string) list option"

datatype level = DEBUG | INFO | ERROR | FATAL

text \<open>
  What a stage does to the outside world, in order. Environment overlays and error
  lists passed to the executor are left out of the events.
\<close>

datatype event =
    Log level string
  | RunCommand "string list" "string option"
  | RunMockCommand string "string list" string
  | SetupMock string "string list" "(string \<times> string) list option"
  | WriteToFile string string
  | Rmtree string
  | MkdirP string
  | Mkdtemp string
  | Copyfile string string
  | CopyToUploadDir string "string option"
  | CopyLogsToUploadDir
  | VcsCheckout string string string
  | SetBuildbotProperty string string
  | CreateUpdateXml string "string option" "string option" string string
  | RsyncUploadDirectory string "string option" "string option" "string option" string
      "string list option"

text \<open>
  The environment of a run: the locked configuration, what the scheduler supplied, the
  file system as the stages find it, and the answers of the collaborators (executor,
  transfer, signing checkout, update manifest writer), each a function of the events so
  far and of the call. \<open>is_nightly\<close> is what \<^verbatim>\<open>query_is_nightly\<close> of the scheduler mix-in
  answers: the nightly-build flag of the run.
\<close>

record env =
  config :: run_config
  abs_dirs :: dirs
  buildbot_config :: "(string \<times> json) list option"
  environ :: "(string \<times> string) list"
  is_nightly :: bool
  getmtime :: "string \<Rightarrow> int option"
  descriptor :: "string \<Rightarrow> py_error + gecko_cfg"
  glob :: "string \<Rightarrow> string list"
  str_format :: "string \<Rightarrow> (string \<times> string) list \<Rightarrow> py_error + string"
  py_repr :: "json \<Rightarrow> string"
  exit_status :: "event list \<Rightarrow> event \<Rightarrow> int"
  rsync_result :: "event list \<Rightarrow> event \<Rightarrow> int option"
  update_xml_ok :: "event list \<Rightarrow> bool"
  checkout_rev :: "event list \<Rightarrow> string"
  python_exe :: string
  tmpdir :: "event list \<Rightarrow> string"

record state =
  trace :: "event list"
  return_code :: int
  files :: "string \<Rightarrow> string option"
  gecko_config :: "gecko_cfg option"
  buildbot_properties :: "(string \<times> json) list"

type_synonym stage = "env \<Rightarrow> state \<Rightarrow> unit result \<times> state"

section \<open>Collaborators\<close>

text \<open>
  Modelled from the spec: the helpers that the stages inherit from the base script and its
  mix-ins (logging, executor, file access, transfer, sandbox, checkout, signing) are not
  among the sources. Each is an external collaborator: its call is recorded as an event,
  and what it returns is what the environment answers.
\<close>

definition emit :: "event \<Rightarrow> state \<Rightarrow> state" where
  "emit ev s = s\<lparr>trace := trace s @ [ev]\<rparr>"

definition info :: "string \<Rightarrow> state \<Rightarrow> state" where
  "info msg s = emit (Log INFO msg) s"

definition debug :: "string \<Rightarrow> state \<Rightarrow> state" where
  "debug msg s = emit (Log DEBUG msg) s"

definition error :: "string \<Rightarrow> state \<Rightarrow> state" where
  "error msg s = emit (Log ERROR msg) s"

text \<open>
  Modelled from the spec: \<^verbatim>\<open>fatal\<close> (the logging mix-in of the base script, not among the
  sources) signals a fatal condition: the pipeline aborts at once and the process reports
  the exit code. Its default exit code is -1, as in \<^verbatim>\<open>Config.py\<close>.
\<close>

definition fatal :: "string \<Rightarrow> int \<Rightarrow> state \<Rightarrow> 'a result \<times> state" where
  "fatal msg exit_code s = (Fatal exit_code, emit (Log FATAL msg) s)"

text \<open>
  Modelled from the spec: the executor runs a command and returns its exit status. The
  command is recorded and the environment answers with the status. The files that the
  state holds are not touched by a command.
\<close>

definition run_command :: "env \<Rightarrow> string list \<Rightarrow> string option \<Rightarrow> state \<Rightarrow> int \<times> state" where
  "run_command e cmd cwd s =
     (exit_status e (trace s) (RunCommand cmd cwd), emit (RunCommand cmd cwd) s)"

definition run_mock_command :: "env \<Rightarrow> string \<Rightarrow> string list \<Rightarrow> string \<Rightarrow> state \<Rightarrow> int \<times> state" where
  "run_mock_command e mock cmd cwd s =
     (exit_status e (trace s) (RunMockCommand mock cmd cwd), emit (RunMockCommand mock cmd cwd) s)"

text \<open>
  Modelled from the spec: \<^verbatim>\<open>read_from_file\<close> returns the contents of a file, or \<^verbatim>\<open>None\<close>
  when the file is absent; \<^verbatim>\<open>write_to_file\<close> replaces the contents.
\<close>

definition read_from_file :: "state \<Rightarrow> string \<Rightarrow> string option" where
  "read_from_file s path = files s path"

definition write_to_file :: "string \<Rightarrow> string \<Rightarrow> state \<Rightarrow> state" where
  "write_to_file path contents s =
     emit (WriteToFile path contents) (s\<lparr>files := (files s)(path \<mapsto> contents)\<rparr>)"

section \<open>The snapshot cache: \<^verbatim>\<open>unpack_gonk\<close>\<close>

definition gonk_snapshot :: "env \<Rightarrow> string" where
  "gonk_snapshot e = path_join (abs_work_dir (abs_dirs e)) [''gonk.tar.xz'']"

definition gonk_mtime_file :: "env \<Rightarrow> string" where
  "gonk_mtime_file e = path_join (abs_work_dir (abs_dirs e)) [''.gonk_mtime'']"

text \<open>
  \<^verbatim>\<open>int(self.read_from_file(mtime_file))\<close>: \<^verbatim>\<open>int(None)\<close> is a \<^verbatim>\<open>TypeError\<close>, an
  unparsable string a \<^verbatim>\<open>ValueError\<close>.
\<close>

definition read_prev_mtime :: "env \<Rightarrow> state \<Rightarrow> int result" where
  "read_prev_mtime e s =
     (case read_from_file s (gonk_mtime_file e) of
        None \<Rightarrow> Raise TypeError
      | Some c \<Rightarrow> (case py_int c of None \<Rightarrow> Raise ValueError | Some p \<Rightarrow> Ok p))"

text \<open>
  The \<^verbatim>\<open>try\<close> block of \<^verbatim>\<open>unpack_gonk\<close>: it leaves the stage only when the fingerprint was
  read and equals the modification time; the bare \<^verbatim>\<open>except: pass\<close> swallows everything
  else.
\<close>

definition already_unpacked :: "env \<Rightarrow> state \<Rightarrow> int \<Rightarrow> bool" where
  "already_unpacked e s mtime =
     (case read_prev_mtime e s of Ok prev_mtime \<Rightarrow> mtime = prev_mtime | _ \<Rightarrow> False)"

definition tar_command :: "string list" where
  "tar_command = [''tar'', ''xf'', ''gonk.tar.xz'', ''--strip-components'', ''1'']"

text \<open>
  \<open>getmtime e p\<close> is \<^verbatim>\<open>int(os.path.getmtime(p))\<close>, the modification time cut to whole
  seconds; \<open>None\<close> when the file is missing (an \<^verbatim>\<open>OSError\<close>, raised outside the \<^verbatim>\<open>try\<close>).
\<close>

definition unpack_gonk :: stage where
  "unpack_gonk e s =
     (case getmtime e (gonk_snapshot e) of
        None \<Rightarrow> (Raise OSError, s)
      | Some mtime \<Rightarrow>
          if already_unpacked e s mtime
          then (Ok (), info ''We already have this gonk unpacked; skipping'' s)
          else
            (case run_command e tar_command (Some (work_dir (abs_dirs e))) s of
               (retval, s1) \<Rightarrow>
                 if retval \<noteq> 0 then fatal ''failed to unpack gonk'' 2 s1
                 else
                   (case run_command e [''cat'', ''sources.xml'']
                           (Some (work_dir (abs_dirs e))) s1 of
                      (_, s2) \<Rightarrow>
                        (Ok (),
                         write_to_file (gonk_mtime_file e) (str_int mtime)
                           (info (''Writing '' @ str_int mtime @ '' to '' @ gonk_mtime_file e)
                              s2)))))"

text \<open>The executor invocations among the events.\<close>

fun is_command :: "event \<Rightarrow> bool" where
  "is_command (RunCommand _ _) = True"
| "is_command (RunMockCommand _ _ _) = True"
| "is_command _ = False"

fun is_transfer :: "event \<Rightarrow> bool" where
  "is_transfer (RsyncUploadDirectory _ _ _ _ _ _) = True"
| "is_transfer _ = False"

definition commands :: "state \<Rightarrow> event list" where
  "commands s = filter is_command (trace s)"

definition transfers :: "state \<Rightarrow> event list" where
  "transfers s = filter is_transfer (trace s)"

section \<open>Queries\<close>

text \<open>
  \<^verbatim>\<open>"%s" % v\<close>: a string is itself, \<^verbatim>\<open>None\<close>, a boolean and an integer print as Python
  prints them; for a list or a dictionary the interpreter's \<^verbatim>\<open>repr\<close> is a parameter of
  the environment.
\<close>

definition py_str :: "env \<Rightarrow> json \<Rightarrow> string" where
  "py_str e v =
     (case v of
        JNull \<Rightarrow> ''None''
      | JBool b \<Rightarrow> (if b then ''True'' else ''False'')
      | JNum i \<Rightarrow> str_int i
      | JStr s \<Rightarrow> s
      | _ \<Rightarrow> py_repr e v)"

definition opt_str :: "string option \<Rightarrow> string" where
  "opt_str v = (case v of None \<Rightarrow> ''None'' | Some s \<Rightarrow> s)"

text \<open>\<^verbatim>\<open>self.buildbot_config and k in self.buildbot_config\<close>.\<close>

definition has_section :: "env \<Rightarrow> string \<Rightarrow> bool" where
  "has_section e k =
     (case buildbot_config e of
        None \<Rightarrow> False
      | Some d \<Rightarrow> d \<noteq> [] \<and> map_of d k \<noteq> None)"

text \<open>\<^verbatim>\<open>self.buildbot_config[k]\<close>; subscripting \<^verbatim>\<open>None\<close> is a \<^verbatim>\<open>TypeError\<close>.\<close>

definition buildbot_section :: "env \<Rightarrow> string \<Rightarrow> json result" where
  "buildbot_section e k =
     (case buildbot_config e of None \<Rightarrow> Raise TypeError | Some d \<Rightarrow> dict_get d k)"

definition query_repo :: "env \<Rightarrow> string result" where
  "query_repo e =
     (if has_section e ''properties'' then
        (case buildbot_section e ''properties'' of
           Ok props \<Rightarrow>
             (case getitem props ''repo_path'' of
                Ok v \<Rightarrow> Ok (''http://hg.mozilla.org/'' @ py_str e v)
              | Fatal c \<Rightarrow> Fatal c
              | Raise x \<Rightarrow> Raise x)
         | Fatal c \<Rightarrow> Fatal c
         | Raise x \<Rightarrow> Raise x)
      else Ok (repo (config e)))"

definition query_branch :: "env \<Rightarrow> json result" where
  "query_branch e =
     (if has_section e ''properties'' then
        (case buildbot_section e ''properties'' of
           Ok props \<Rightarrow> getitem props ''branch''
         | r \<Rightarrow> r)
      else
        (case query_repo e of
           Ok r \<Rightarrow> Ok (JStr (basename r))
         | Fatal c \<Rightarrow> Fatal c
         | Raise x \<Rightarrow> Raise x))"

definition newline :: char where
  "newline = CHR 0x0A"

fun first_match :: "('a \<Rightarrow> 'b option) \<Rightarrow> 'a list \<Rightarrow> 'b option" where
  "first_match f [] = None"
| "first_match f (x # xs) = (case f x of Some y \<Rightarrow> Some y | None \<Rightarrow> first_match f xs)"

text \<open>
  \<^verbatim>\<open>re.search("^BuildID=(\d+)$", data, re.M)\<close>: with \<^verbatim>\<open>re.M\<close> the anchors match at the
  line breaks, and digits hold no line break, so the first match is the first line that is
  exactly \<^verbatim>\<open>BuildID=\<close> followed by one or more digits; group 1 is the digits.
\<close>

definition buildid_of_line :: "string \<Rightarrow> string option" where
  "buildid_of_line l =
     (if startswith l ''BuildID='' \<and> drop 8 l \<noteq> [] \<and> list_all is_digit (drop 8 l)
      then Some (drop 8 l) else None)"

text \<open>\<^verbatim>\<open>re.search("^Version=(.+)$", data, re.M)\<close>: group 1 is the non-empty rest of the line.\<close>

definition version_of_line :: "string \<Rightarrow> string option" where
  "version_of_line l =
     (if startswith l ''Version='' \<and> drop 8 l \<noteq> [] then Some (drop 8 l) else None)"

definition platform_ini :: "env \<Rightarrow> string" where
  "platform_ini e =
     path_join (work_dir (abs_dirs e))
       [''out'', ''target'', ''product'', target (config e), ''system'', ''b2g'', ''platform.ini'']"

definition application_ini :: "env \<Rightarrow> string" where
  "application_ini e =
     path_join (work_dir (abs_dirs e))
       [''out'', ''target'', ''product'', target (config e), ''system'', ''b2g'',
        ''application.ini'']"

definition objdir :: "env \<Rightarrow> string" where
  "objdir e = path_join (work_dir (abs_dirs e)) [''objdir-gecko'']"

definition marfile :: "env \<Rightarrow> string" where
  "marfile e = objdir e @ ''/dist/b2g-update/b2g-gecko-update.mar''"

text \<open>
  \<^verbatim>\<open>query_buildid\<close> returns group 1 of the match, and \<^verbatim>\<open>None\<close> (here \<open>Ok None\<close>) when no
  line matches; searching the \<^verbatim>\<open>None\<close> of an unreadable file is a \<^verbatim>\<open>TypeError\<close>.
\<close>

definition query_buildid :: "env \<Rightarrow> state \<Rightarrow> string option result" where
  "query_buildid e s =
     (case read_from_file s (platform_ini e) of
        None \<Rightarrow> Raise TypeError
      | Some data \<Rightarrow> Ok (first_match buildid_of_line (split_on newline data)))"

definition query_version :: "env \<Rightarrow> state \<Rightarrow> string option result" where
  "query_version e s =
     (case read_from_file s (application_ini e) of
        None \<Rightarrow> Raise TypeError
      | Some data \<Rightarrow> Ok (first_match version_of_line (split_on newline data)))"

definition query_revision :: "env \<Rightarrow> state \<Rightarrow> json result" where
  "query_revision e s =
     (if map_of (buildbot_properties s) ''revision'' \<noteq> None
      then dict_get (buildbot_properties s) ''revision''
      else if has_section e ''sourcestamp'' then
        (case buildbot_section e ''sourcestamp'' of
           Ok ss \<Rightarrow> getitem ss ''revision''
         | r \<Rightarrow> r)
      else Ok JNull)"

text \<open>
  \<^verbatim>\<open>load_gecko_config\<close>: the descriptor is loaded on first use and cached on the script
  object. \<open>descriptor e f\<close> is \<^verbatim>\<open>json.load(open(f))\<close>.
\<close>

definition gecko_conf_file :: "env \<Rightarrow> string" where
  "gecko_conf_file e =
     (case gecko_config_file (config e) of
        None \<Rightarrow> path_join (src (abs_dirs e)) [''b2g'', ''config'', target (config e), ''config.json'']
      | Some f \<Rightarrow> f)"

definition load_gecko_config :: "env \<Rightarrow> state \<Rightarrow> gecko_cfg result \<times> state" where
  "load_gecko_config e s =
     (case gecko_config s of
        Some g \<Rightarrow> (Ok g, s)
      | None \<Rightarrow>
          (case descriptor e (gecko_conf_file e) of
             Inl x \<Rightarrow> (Raise x, s)
           | Inr g \<Rightarrow> (Ok g, s\<lparr>gecko_config := Some g\<rparr>)))"

section \<open>More collaborators\<close>

text \<open>
  Modelled from the spec: the transfer collaborator \<^verbatim>\<open>rsync_upload_directory\<close> copies a
  local path to a remote path and reports success (\<^verbatim>\<open>None\<close>) or failure (a status).
\<close>

definition rsync_upload_directory ::
  "env \<Rightarrow> string \<Rightarrow> string option \<Rightarrow> string option \<Rightarrow> string option \<Rightarrow> string \<Rightarrow>
   string list option \<Rightarrow> state \<Rightarrow> int option \<times> state" where
  "rsync_upload_directory e local_dir key user host remote_path rsync_options s =
     (let ev = RsyncUploadDirectory local_dir key user host remote_path rsync_options
      in (rsync_result e (trace s) ev, emit ev s))"

definition rmtree :: "string \<Rightarrow> state \<Rightarrow> state" where
  "rmtree path s = emit (Rmtree path) s"

definition mkdir_p :: "string \<Rightarrow> state \<Rightarrow> state" where
  "mkdir_p path s = emit (MkdirP path) s"

definition copyfile :: "string \<Rightarrow> string \<Rightarrow> state \<Rightarrow> state" where
  "copyfile f dst s = emit (Copyfile f dst) s"

definition copy_to_upload_dir :: "string \<Rightarrow> string option \<Rightarrow> state \<Rightarrow> state" where
  "copy_to_upload_dir f dest s = emit (CopyToUploadDir f dest) s"

definition copy_logs_to_upload_dir :: "state \<Rightarrow> state" where
  "copy_logs_to_upload_dir s = emit CopyLogsToUploadDir s"

definition mkdtemp :: "env \<Rightarrow> state \<Rightarrow> string \<times> state" where
  "mkdtemp e s = (tmpdir e (trace s), emit (Mkdtemp (tmpdir e (trace s))) s)"

text \<open>
  Modelled from the spec: \<^verbatim>\<open>setup_mock\<close> (the sandbox mix-in, not among the sources)
  ensures that the named sandbox profile is ready with its package set.
\<close>

definition setup_mock ::
  "string \<Rightarrow> string list \<Rightarrow> (string \<times> string) list option \<Rightarrow> state \<Rightarrow> state" where
  "setup_mock mock packages mfiles s = emit (SetupMock mock packages mfiles) s"

text \<open>
  Modelled from the spec: \<^verbatim>\<open>vcs_checkout\<close> (not among the sources) fetches the source and
  returns the resolved revision.
\<close>

definition vcs_checkout :: "env \<Rightarrow> string \<Rightarrow> string \<Rightarrow> string \<Rightarrow> state \<Rightarrow> string \<times> state" where
  "vcs_checkout e r vcs dest s = (checkout_rev e (trace s), emit (VcsCheckout r vcs dest) s)"

definition set_buildbot_property :: "string \<Rightarrow> string \<Rightarrow> state \<Rightarrow> state" where
  "set_buildbot_property k v s =
     emit (SetBuildbotProperty k v)
       (s\<lparr>buildbot_properties := (k, JStr v) # buildbot_properties s\<rparr>)"

definition create_update_xml ::
  "env \<Rightarrow> string \<Rightarrow> string option \<Rightarrow> string option \<Rightarrow> string \<Rightarrow> string \<Rightarrow> state \<Rightarrow> bool \<times> state" where
  "create_update_xml e mar version buildid url upload_dir s =
     (update_xml_ok e (trace s), emit (CreateUpdateXml mar version buildid url upload_dir) s)"

section \<open>The update packaging workflow\<close>

definition not_nightly_msg :: string where
  "not_nightly_msg = ''Not a nightly build. Skipping...''"

definition signtool_command :: "env \<Rightarrow> string list" where
  "signtool_command e =
     (let signing_dir = path_join (abs_work_dir (abs_dirs e)) [''tools'', ''release'', ''signing''];
          cache_dir = path_join (abs_work_dir (abs_dirs e)) [''signing_cache''];
          token = path_join (base_work_dir (abs_dirs e)) [''token''];
          nonce = path_join (base_work_dir (abs_dirs e)) [''nonce''];
          host_cert = path_join signing_dir [''host.cert''];
          servers = (case map_of (environ e) ''MOZ_SIGNING_SERVERS'' of
                       None \<Rightarrow> [] | Some v \<Rightarrow> split_on CHR '','' v)
      in [python_exe e, path_join signing_dir [''signtool.py''],
          ''--cachedir'', cache_dir, ''-t'', token, ''-n'', nonce, ''-c'', host_cert,
          ''-f'', ''b2gmar'']
         @ concat (map (\<lambda>h. [''-H'', h]) servers)
         @ [marfile e])"

definition sign_updates :: stage where
  "sign_updates e s =
     (if map_of (environ e) ''MOZ_SIGNING_SERVERS'' = None
      then (Ok (), info ''Skipping signing since no MOZ_SIGNING_SERVERS set'' s)
      else
        (case vcs_checkout e (tools_repo (config e)) ''hgtool''
                (path_join (abs_work_dir (abs_dirs e)) [''tools''])
                (info ''Checking out tools'' s) of
           (revision, s1) \<Rightarrow>
             (case run_command e (signtool_command e) None
                     (set_buildbot_property ''tools_revision'' revision s1) of
                (retval, s2) \<Rightarrow>
                  if retval \<noteq> 0 then fatal ''failed to sign complete update'' 2 s2
                  else (Ok (), s2))))"

definition update_command :: "string list" where
  "update_command = [''./build.sh'', ''gecko-update-full'']"

definition write_userconfig :: "env \<Rightarrow> state \<Rightarrow> state" where
  "write_userconfig e s =
     write_to_file (path_join (work_dir (abs_dirs e)) [''.userconfig''])
       (''GECKO_OBJDIR='' @ objdir e @ [newline]) s"

text \<open>
  The executor call of \<^verbatim>\<open>make_updates\<close>: inside the sandbox when the descriptor names a
  \<^verbatim>\<open>mock_target\<close> (a descriptor without \<^verbatim>\<open>mock_packages\<close> is then a \<^verbatim>\<open>KeyError\<close>),
  directly otherwise.
\<close>

definition run_build_command :: "env \<Rightarrow> gecko_cfg \<Rightarrow> string list \<Rightarrow> state \<Rightarrow> int result \<times> state" where
  "run_build_command e g cmd s =
     (case mock_target g of
        Some mock \<Rightarrow>
          (case mock_packages g of
             None \<Rightarrow> (Raise KeyError, s)
           | Some packages \<Rightarrow>
               (case run_mock_command e mock cmd (work_dir (abs_dirs e))
                       (setup_mock mock packages (mock_files g) s) of
                  (retval, s1) \<Rightarrow> (Ok retval, s1)))
      | None \<Rightarrow>
          (case run_command e cmd (Some (work_dir (abs_dirs e))) s of
             (retval, s1) \<Rightarrow> (Ok retval, s1)))"

definition make_updates :: stage where
  "make_updates e s =
     (if \<not> is_nightly e then (Ok (), info not_nightly_msg s)
      else
        (case load_gecko_config e s of
           (Ok g, s1) \<Rightarrow>
             (case run_build_command e g update_command (write_userconfig e s1) of
                (Ok retval, s2) \<Rightarrow>
                  if retval \<noteq> 0 then fatal ''failed to create complete update'' 2 s2
                  else sign_updates e s2
              | (Fatal c, s2) \<Rightarrow> (Fatal c, s2)
              | (Raise x, s2) \<Rightarrow> (Raise x, s2))
         | (Fatal c, s1) \<Rightarrow> (Fatal c, s1)
         | (Raise x, s1) \<Rightarrow> (Raise x, s1)))"

definition updates_dir :: "env \<Rightarrow> string" where
  "updates_dir e = abs_upload_dir (abs_dirs e) @ ''-updates''"

text \<open>
  \<^verbatim>\<open>make_update_xml\<close>. The build identifier is queried twice and the version once, in
  the order the source evaluates them.
\<close>

definition make_update_xml :: stage where
  "make_update_xml e s =
     (if \<not> is_nightly e then (Ok (), info not_nightly_msg s)
      else
        (case update (config e) of
           None \<Rightarrow> (Ok (), info ''No updates. Skipping...'' s)
         | Some u \<Rightarrow>
             (let upload_dir = updates_dir e;
                  s1 = rmtree upload_dir s
              in case query_buildid e s1 of
                   Ok buildid_suffix \<Rightarrow>
                     (let dated_mar = ''b2g_update_'' @ opt_str buildid_suffix @ ''.mar'';
                          dated_update_xml = ''update_'' @ opt_str buildid_suffix @ ''.xml'';
                          dated_application_ini = ''application_'' @ opt_str buildid_suffix @ ''.ini'';
                          mar_url = base_url u @ dated_mar;
                          s2 = info (''Generating update.xml for '' @ mar_url) s1
                      in case query_version e s2 of
                           Ok version \<Rightarrow>
                             (case query_buildid e s2 of
                                Ok buildid \<Rightarrow>
                                  (case create_update_xml e (marfile e) version buildid mar_url
                                          upload_dir s2 of
                                     (ok, s3) \<Rightarrow>
                                       if \<not> ok then fatal ''Failed to generate update.xml'' (- 1) s3
                                       else
                                         (Ok (),
                                          copy_to_upload_dir
                                            (path_join upload_dir [''update.xml''])
                                            (Some (path_join upload_dir [dated_update_xml]))
                                            (copy_to_upload_dir (application_ini e)
                                               (Some (path_join upload_dir [dated_application_ini]))
                                               (copy_to_upload_dir (marfile e)
                                                  (Some (path_join upload_dir [dated_mar])) s3))))
                              | Fatal c \<Rightarrow> (Fatal c, s2)
                              | Raise x \<Rightarrow> (Raise x, s2))
                         | Fatal c \<Rightarrow> (Fatal c, s2)
                         | Raise x \<Rightarrow> (Raise x, s2))
                 | Fatal c \<Rightarrow> (Fatal c, s1)
                 | Raise x \<Rightarrow> (Raise x, s1))))"

text \<open>
  The transfer of \<^verbatim>\<open>upload_updates\<close> and of \<^verbatim>\<open>upload\<close>, with what follows it: a result
  other than \<^verbatim>\<open>None\<close> is logged as an error and sets \<^verbatim>\<open>self.return_code\<close>; the stage
  goes on.
\<close>

definition update_rsync :: "env \<Rightarrow> update_cfg \<Rightarrow> string list option \<Rightarrow> state \<Rightarrow> state" where
  "update_rsync e u rsync_options s =
     (case rsync_upload_directory e (updates_dir e) (Some (u_ssh_key u)) (Some (u_ssh_user u))
             (Some (u_upload_remote_host u)) (u_upload_remote_basepath u) rsync_options s of
        (retval, s1) \<Rightarrow>
          if retval \<noteq> None then (error ''failed to upload'' s1)\<lparr>return_code := 2\<rparr>
          else info ''Upload successful'' s1)"

definition upload_updates :: stage where
  "upload_updates e s =
     (if \<not> is_nightly e then (Ok (), info not_nightly_msg s)
      else
        (case update (config e) of
           None \<Rightarrow> (Ok (), info ''No updates. Skipping...'' s)
         | Some u \<Rightarrow>
             (let s1 = update_rsync e u (Some [''-azv'', ''--exclude=update.xml'']) s
              in if autopublish u then (Ok (), update_rsync e u None s1)
                 else (Ok (), s1))))"

section \<open>Artifact staging and publishing\<close>

definition format_keywords :: "env \<Rightarrow> (string \<times> string) list" where
  "format_keywords e =
     [(''objdir'', objdir e), (''workdir'', work_dir (abs_dirs e)), (''srcdir'', src (abs_dirs e))]"

text \<open>
  The two pattern loops of \<^verbatim>\<open>prep_upload\<close>: each pattern is filled in with
  \<^verbatim>\<open>pattern.format(objdir=..., workdir=..., srcdir=...)\<close> and globbed; \<^verbatim>\<open>str.format\<close> and
  \<^verbatim>\<open>glob.glob\<close> are parameters of the environment.
\<close>

fun expand_patterns :: "env \<Rightarrow> string list \<Rightarrow> string list result" where
  "expand_patterns e [] = Ok []"
| "expand_patterns e (pattern # ps) =
     (case str_format e pattern (format_keywords e) of
        Inl x \<Rightarrow> Raise x
      | Inr p \<Rightarrow>
          (case expand_patterns e ps of
             Ok fs \<Rightarrow> Ok (glob e p @ fs)
           | r \<Rightarrow> r))"

definition output_dir :: "env \<Rightarrow> string" where
  "output_dir e =
     path_join (work_dir (abs_dirs e)) [''out'', ''target'', ''product'', target (config e)]"

definition build_prop :: "env \<Rightarrow> string" where
  "build_prop e = path_join (output_dir e) [''system'', ''build.prop'']"

text \<open>The file list of the second half of \<^verbatim>\<open>prep_upload\<close>.\<close>

definition upload_file_list :: "env \<Rightarrow> gecko_cfg \<Rightarrow> string list result" where
  "upload_file_list e g =
     (case expand_patterns e (upload_files g) of
        Ok fs \<Rightarrow> Ok (build_prop e # fs)
      | r \<Rightarrow> r)"

text \<open>The loop \<^verbatim>\<open>for f in files\<close> that stages the individually uploaded files.\<close>

fun stage_files :: "env \<Rightarrow> string list \<Rightarrow> state \<Rightarrow> state" where
  "stage_files e [] s = s"
| "stage_files e (f # fs) s =
     (if endswith f ''.img'' then
        (if is_nightly e then
           (case run_command e [''bzip2'', f] None (info (''compressing '' @ f) s) of
              (_, s1) \<Rightarrow>
                stage_files e fs
                  (copy_to_upload_dir (f @ ''.bz2'') None
                     (info (''copying '' @ (f @ ''.bz2'') @ '' to upload directory'') s1)))
         else stage_files e fs (info (''not uploading '' @ f @ '' for non-nightly build'') s))
      else
        stage_files e fs
          (copy_to_upload_dir f None (info (''copying '' @ f @ '' to upload directory'') s)))"

text \<open>
  The archive of the bundled files. The \<^verbatim>\<open>finally\<close> clause removes the temporary
  directory whether or not the archiver failed.
\<close>

definition zip_up :: "env \<Rightarrow> string list \<Rightarrow> state \<Rightarrow> unit result \<times> state" where
  "zip_up e fs s =
     (let zip_name = path_join (work_dir (abs_dirs e)) [target (config e) @ ''.zip''];
          s1 = info (''creating '' @ zip_name) s
      in case mkdtemp e s1 of
           (tmp, s2) \<Rightarrow>
             (let zip_dir = path_join tmp [''b2g-distro''];
                  s3 = foldl (\<lambda>st f. copyfile f (path_join zip_dir [basename f]) st)
                         (mkdir_p zip_dir s2) fs
              in case run_command e [''zip'', ''-r'', ''-9'', ''-u'', zip_name, ''b2g-distro'']
                        (Some tmp) s3 of
                   (retval, s4) \<Rightarrow>
                     if retval \<noteq> 0 then
                       (case fatal ''problem zipping up files'' (- 1) s4 of
                          (r, s5) \<Rightarrow> (r, rmtree tmp (debug (''removing '' @ tmp) s5)))
                     else
                       (Ok (),
                        rmtree tmp
                          (debug (''removing '' @ tmp) (copy_to_upload_dir zip_name None s4)))))"

definition prep_upload :: stage where
  "prep_upload e s =
     (case load_gecko_config e (rmtree (abs_upload_dir (abs_dirs e)) s) of
        (Ok g, s1) \<Rightarrow>
          (case expand_patterns e (zip_files g) of
             Ok zfiles \<Rightarrow>
               (case (if zfiles \<noteq> [] then zip_up e zfiles s1 else (Ok (), s1)) of
                  (Ok _, s2) \<Rightarrow>
                    (case upload_file_list e g of
                       Ok fs \<Rightarrow>
                         (Ok (),
                          copy_logs_to_upload_dir
                            (stage_files e fs (info ''copying files to upload directory'' s2)))
                     | Fatal c \<Rightarrow> (Fatal c, info ''copying files to upload directory'' s2)
                     | Raise x \<Rightarrow> (Raise x, info ''copying files to upload directory'' s2))
                | (Fatal c, s2) \<Rightarrow> (Fatal c, s2)
                | (Raise x, s2) \<Rightarrow> (Raise x, s2))
           | Fatal c \<Rightarrow> (Fatal c, s1)
           | Raise x \<Rightarrow> (Raise x, s1))
      | (Fatal c, s1) \<Rightarrow> (Fatal c, s1)
      | (Raise x, s1) \<Rightarrow> (Raise x, s1))"

text \<open>
  The submitter of a try build, \<^verbatim>\<open>buildbot_config['sourcestamp']['changes'][0]['who']\<close>,
  and the \<^verbatim>\<open>try ... except KeyError\<close> around it.
\<close>

definition changes_who :: "env \<Rightarrow> json result" where
  "changes_who e =
     (case buildbot_section e ''sourcestamp'' of
        Ok ss \<Rightarrow>
          (case getitem ss ''changes'' of
             Ok cs \<Rightarrow>
               (case getindex cs 0 of
                  Ok change \<Rightarrow> getitem change ''who''
                | r \<Rightarrow> r)
           | r \<Rightarrow> r)
      | r \<Rightarrow> r)"

definition upload_user :: "env \<Rightarrow> json result" where
  "upload_user e =
     (case changes_who e of
        Raise KeyError \<Rightarrow> Ok (JStr ''unknown'')
      | r \<Rightarrow> r)"

definition try_path :: "string \<Rightarrow> string \<Rightarrow> string \<Rightarrow> string \<Rightarrow> string \<Rightarrow> string" where
  "try_path basepath user revision branch tgt =
     basepath @ ''/'' @ user @ ''-'' @ revision @ ''/'' @ branch @ ''-'' @ tgt"

definition dated_path :: "string \<Rightarrow> string \<Rightarrow> string \<Rightarrow> string \<Rightarrow> string" where
  "dated_path basepath branch tgt buildid =
     basepath @ ''/'' @ branch @ ''-'' @ tgt @ ''/'' @ buildid"

text \<open>
  The destination path of \<^verbatim>\<open>upload\<close>. The keyword arguments of \<^verbatim>\<open>dict(...)\<close> are
  evaluated in the order written: the branch before the revision or the build identifier.
\<close>

definition upload_path :: "env \<Rightarrow> state \<Rightarrow> string result" where
  "upload_path e s =
     (if enable_try_uploads (config e) then
        (case upload_user e of
           Ok user \<Rightarrow>
             (case query_branch e of
                Ok branch \<Rightarrow>
                  (case query_revision e s of
                     Ok revision \<Rightarrow>
                       Ok (try_path (opt_str (upload_remote_basepath (config e))) (py_str e user)
                             (py_str e revision) (py_str e branch) (target (config e)))
                   | Fatal c \<Rightarrow> Fatal c
                   | Raise x \<Rightarrow> Raise x)
              | Fatal c \<Rightarrow> Fatal c
              | Raise x \<Rightarrow> Raise x)
         | Fatal c \<Rightarrow> Fatal c
         | Raise x \<Rightarrow> Raise x)
      else
        (case query_branch e of
           Ok branch \<Rightarrow>
             (case query_buildid e s of
                Ok buildid \<Rightarrow>
                  Ok (dated_path (opt_str (upload_remote_basepath (config e))) (py_str e branch)
                        (target (config e)) (opt_str buildid))
              | Fatal c \<Rightarrow> Fatal c
              | Raise x \<Rightarrow> Raise x)
         | Fatal c \<Rightarrow> Fatal c
         | Raise x \<Rightarrow> Raise x))"

definition upload :: stage where
  "upload e s =
     (case upload_path e s of
        Ok path \<Rightarrow>
          (case rsync_upload_directory e (abs_upload_dir (abs_dirs e)) (ssh_key (config e))
                  (ssh_user (config e)) (upload_remote_host (config e)) path None s of
             (retval, s1) \<Rightarrow>
               if retval \<noteq> None then (Ok (), (error ''failed to upload'' s1)\<lparr>return_code := 2\<rparr>)
               else
                 (Ok (),
                  info (''Upload successful: '' @ ''http://''
                        @ opt_str (upload_remote_host (config e)) @ ''/'' @ path) s1))
      | Fatal c \<Rightarrow> (Fatal c, s)
      | Raise x \<Rightarrow> (Raise x, s))"

section \<open>The stage catalogue and the pipeline engine\<close>

text \<open>The catalogue and the default selection that \<^verbatim>\<open>B2GBuild.__init__\<close> hands to the base script.\<close>

definition all_actions :: "string list" where
  "all_actions =
     [''clobber'', ''checkout-gecko'', ''download-gonk'', ''unpack-gonk'', ''checkout-gaia'',
      ''checkout-gaia-l10n'', ''build'', ''build-symbols'', ''make-updates'', ''prep-upload'',
      ''upload'', ''make-update-xml'', ''upload-updates'']"

definition default_actions :: "string list" where
  "default_actions = [''checkout-gecko'', ''download-gonk'', ''unpack-gonk'', ''build'']"

text \<open>
  Modelled from the spec: the pipeline engine (\<^verbatim>\<open>BaseScript.run\<close>, not among the sources).
  Given the ordered catalogue and a selected subset it executes the selected stages
  strictly in catalogue order; a stage that completes lets the pipeline continue, a fatal
  condition aborts it at once and no later stage runs. The engine reports the stages it
  started, in order.
\<close>

definition selected_stages :: "string list \<Rightarrow> string list \<Rightarrow> string list" where
  "selected_stages catalogue selection = filter (\<lambda>a. a \<in> set selection) catalogue"

fun run_stages ::
  "(string \<Rightarrow> stage) \<Rightarrow> string list \<Rightarrow> env \<Rightarrow> state \<Rightarrow> unit result \<times> string list \<times> state" where
  "run_stages table [] e s = (Ok (), [], s)"
| "run_stages table (a # as) e s =
     (case table a e s of
        (Ok _, s1) \<Rightarrow>
          (case run_stages table as e s1 of
             (r, started, s2) \<Rightarrow> (r, a # started, s2))
      | (r, s1) \<Rightarrow> (r, [a], s1))"

definition run_pipeline ::
  "(string \<Rightarrow> stage) \<Rightarrow> string list \<Rightarrow> string list \<Rightarrow> env \<Rightarrow> state \<Rightarrow>
   unit result \<times> string list \<times> state" where
  "run_pipeline table catalogue selection e s =
     run_stages table (selected_stages catalogue selection) e s"

text \<open>
  Modelled from the spec: the completion code of the process. A fatal condition reports
  its exit code; a run that completes reports the recorded \<^verbatim>\<open>return_code\<close>; an
  exception that nothing catches ends the interpreter with code 1.
\<close>

definition exit_code :: "unit result \<times> string list \<times> state \<Rightarrow> int" where
  "exit_code out =
     (case out of
        (Ok _, _, s) \<Rightarrow> return_code s
      | (Fatal c, _, _) \<Rightarrow> c
      | (Raise _, _, _) \<Rightarrow> 1)"

section \<open>An example run\<close>

text \<open>A concrete environment and state, on which the theorems below are instantiated.\<close>

definition demo_dirs :: dirs where
  "demo_dirs =
     \<lparr>base_work_dir = ''/builds'', abs_work_dir = ''/builds/b2g'',
      abs_upload_dir = ''/builds/b2g/upload'', src = ''/builds/b2g/gecko'',
      work_dir = ''/builds/b2g''\<rparr>"

definition demo_config :: run_config where
  "demo_config =
     \<lparr>target = ''device-x'', repo = ''http://hg.mozilla.org/main'',
      tools_repo = ''http://hg.mozilla.org/build/tools'', enable_try_uploads = False,
      ssh_key = Some ''/home/cltbld/.ssh/b2gbld_dsa'', ssh_user = Some ''b2gbld'',
      upload_remote_host = Some ''stage.example.org'',
      upload_remote_basepath = Some ''/pub/b2g/tinderbox-builds'',
      update = None, gecko_config_file = None\<rparr>"

definition demo_gecko :: gecko_cfg where
  "demo_gecko =
     \<lparr>zip_files = [], upload_files = [''{workdir}/out/target/product/device-x/*.img''],
      mock_target = None, mock_packages = None, mock_files = None\<rparr>"

definition demo_env :: env where
  "demo_env =
     \<lparr>config = demo_config, abs_dirs = demo_dirs, buildbot_config = None, environ = [],
      is_nightly = False,
      getmtime = (\<lambda>p. if p = ''/builds/b2g/gonk.tar.xz'' then Some 1357000000 else None),
      descriptor = (\<lambda>f. Inr demo_gecko),
      glob = (\<lambda>p. if p = ''/builds/b2g/out/target/product/device-x/*.img''
                    then [''/builds/b2g/out/target/product/device-x/system.img''] else []),
      str_format = (\<lambda>p kw. if p = ''{workdir}/out/target/product/device-x/*.img''
                    then Inr ''/builds/b2g/out/target/product/device-x/*.img'' else Inr p),
      py_repr = (\<lambda>v. ''[]''),
      exit_status = (\<lambda>t ev. 0),
      rsync_result = (\<lambda>t ev. None),
      update_xml_ok = (\<lambda>t. True),
      checkout_rev = (\<lambda>t. ''0123456789ab''),
      python_exe = ''python'',
      tmpdir = (\<lambda>t. ''/tmp/tmpAbCdEf'')\<rparr>"

definition demo_state :: state where
  "demo_state =
     \<lparr>trace = [], return_code = 0, files = Map.empty, gecko_config = None,
      buildbot_properties = []\<rparr>"

definition demo_fingerprint :: string where
  "demo_fingerprint = ''1357000000'' @ [newline]"

definition demo_unpacked :: state where
  "demo_unpacked = snd (unpack_gonk demo_env demo_state)"

definition demo_platform_ini :: string where
  "demo_platform_ini =
     ''[Build]'' @ [newline] @ ''BuildID=20240101010101'' @ [newline] @ ''Milestone=18.0''
     @ [newline]"

definition demo_built :: state where
  "demo_built =
     demo_state\<lparr>files := [''/builds/b2g/out/target/product/device-x/system/b2g/platform.ini''
                            \<mapsto> demo_platform_ini]\<rparr>"

definition demo_try_env :: env where
  "demo_try_env =
     demo_env\<lparr>config := demo_config\<lparr>enable_try_uploads := True\<rparr>,
               buildbot_config := Some
                 [(''sourcestamp'',
                   JObj [(''revision'', JStr ''abcdef123456''),
                         (''changes'', JArr [JObj [(''who'', JStr ''dev@example.com'')]])]),
                  (''properties'',
                   JObj [(''branch'', JStr ''try''), (''repo_path'', JStr ''try'')])]\<rparr>"

definition demo_anon_env :: env where
  "demo_anon_env =
     demo_env\<lparr>config := demo_config\<lparr>enable_try_uploads := True\<rparr>,
               buildbot_config := Some
                 [(''sourcestamp'',
                   JObj [(''revision'', JStr ''abcdef123456''),
                         (''changes'', JArr [JObj [(''comments'', JStr ''try: -b o'')]])]),
                  (''properties'',
                   JObj [(''branch'', JStr ''try''), (''repo_path'', JStr ''try'')])]\<rparr>"

definition demo_offline_env :: env where
  "demo_offline_env = demo_env\<lparr>rsync_result := (\<lambda>t ev. Some (- 1))\<rparr>"

definition demo_table :: "string \<Rightarrow> stage" where
  "demo_table a = (if a = ''upload'' then upload else upload_updates)"

definition demo_update_cfg :: update_cfg where
  "demo_update_cfg =
     \<lparr>base_url = ''http://update.example.org/nightly/'', u_ssh_key = ''/home/cltbld/.ssh/b2gbld_dsa'',
      u_ssh_user = ''b2gbld'', u_upload_remote_host = ''update.example.org'',
      u_upload_remote_basepath = ''/data/update/nightly'', autopublish = True\<rparr>"

definition demo_nightly_env :: env where
  "demo_nightly_env =
     demo_env\<lparr>is_nightly := True, config := demo_config\<lparr>update := Some demo_update_cfg\<rparr>,
               environ := [(''MOZ_SIGNING_SERVERS'', ''sign1.example.org:9110,sign2.example.org:9110'')]\<rparr>"

definition demo_nightly_broken_env :: env where
  "demo_nightly_broken_env =
     demo_nightly_env\<lparr>exit_status := (\<lambda>t ev. 1), update_xml_ok := (\<lambda>t. False),
                       rsync_result := (\<lambda>t ev. Some (- 1))\<rparr>"

definition demo_application_ini :: string where
  "demo_application_ini = ''[App]'' @ [newline] @ ''Version=18.0'' @ [newline]"

definition demo_packaged :: state where
  "demo_packaged =
     demo_state\<lparr>files :=
       [''/builds/b2g/out/target/product/device-x/system/b2g/platform.ini''
          \<mapsto> demo_platform_ini,
        ''/builds/b2g/out/target/product/device-x/system/b2g/application.ini''
          \<mapsto> demo_application_ini]\<rparr>"

fun staged_of :: "event \<Rightarrow> string list" where
  "staged_of (CopyToUploadDir f d) = [f]"
| "staged_of _ = []"

definition staged :: "state \<Rightarrow> string list" where
  "staged s = concat (map staged_of (trace s))"

definition staging_events :: "bool \<Rightarrow> string \<Rightarrow> event list" where
  "staging_events nightly f =
     (if endswith f ''.img'' then
        (if nightly then
           [Log INFO (''compressing '' @ f), RunCommand [''bzip2'', f] None,
            Log INFO (''copying '' @ f @ ''.bz2'' @ '' to upload directory''),
            CopyToUploadDir (f @ ''.bz2'') None]
         else [Log INFO (''not uploading '' @ f @ '' for non-nightly build'')])
      else [Log INFO (''copying '' @ f @ '' to upload directory''), CopyToUploadDir f None])"

definition staged_names :: "bool \<Rightarrow> string list \<Rightarrow> string list" where
  "staged_names nightly fs =
     (if nightly then map (\<lambda>f. if endswith f ''.img'' then f @ ''.bz2'' else f) fs
      else filter (\<lambda>f. \<not> endswith f ''.img'') fs)"

definition demo_images_env :: env where
  "demo_images_env = demo_env\<lparr>is_nightly := True\<rparr>"

definition demo_nobranch_env :: env where
  "demo_nobranch_env =
     demo_env\<lparr>config := demo_config\<lparr>enable_try_uploads := True\<rparr>,
               buildbot_config := Some [(''properties'', JObj [(''repo_path'', JStr ''try'')])]\<rparr>"

definition demo_norevision_env :: env where
  "demo_norevision_env =
     demo_env\<lparr>config := demo_config\<lparr>enable_try_uploads := True\<rparr>,
               buildbot_config := Some
                 [(''sourcestamp'', JObj [(''changes'', JArr [JObj []])]),
                  (''properties'',
                   JObj [(''branch'', JStr ''try''), (''repo_path'', JStr ''try'')])]\<rparr>"

fun second_transfer_fails :: "event \<Rightarrow> int option" where
  "second_transfer_fails (RsyncUploadDirectory d k u h p None) = Some (- 1)"
| "second_transfer_fails _ = None"

definition demo_nightly_flaky_env :: env where
  "demo_nightly_flaky_env = demo_nightly_env\<lparr>rsync_result := (\<lambda>t. second_transfer_fails)\<rparr>"

section \<open>Integers and their decimal form\<close>

declare str_nat.simps [simp del]

lemma digit_not_space: "is_digit c \<Longrightarrow> \<not> is_space c \<and> c \<noteq> CHR ''-'' \<and> c \<noteq> CHR ''+''"
  by (auto simp: is_digit_def is_space_def)

lemma digit_char_digit: "d < 10 \<Longrightarrow> is_digit (digit_char d) \<and> digit_val (digit_char d) = d"
  by (simp add: is_digit_def digit_val_def digit_char_def)

lemma str_nat_digits: "str_nat n \<noteq> [] \<and> list_all is_digit (str_nat n)"
proof (induction n rule: str_nat.induct)
  case (1 n)
  show ?case
  proof (cases "n < 10")
    case True
    then show ?thesis by (subst str_nat.simps, subst (2) str_nat.simps) (simp add: digit_char_digit)
  next
    case False
    with 1 show ?thesis
      by (subst str_nat.simps, subst (2) str_nat.simps) (simp add: digit_char_digit)
  qed
qed

lemma foldl_str_nat: "foldl (\<lambda>a c. 10 * a + digit_val c) 0 (str_nat n) = n"
proof (induction n rule: str_nat.induct)
  case (1 n)
  show ?case
  proof (cases "n < 10")
    case True
    then show ?thesis by (subst str_nat.simps) (simp add: digit_char_digit)
  next
    case False
    with 1 show ?thesis
      by (subst str_nat.simps) (simp add: digit_char_digit)
  qed
qed

lemma decimal_str_nat: "decimal (str_nat n) = Some (int n)"
  by (simp add: decimal_def str_nat_digits foldl_str_nat)

lemma strip_id: "s \<noteq> [] \<Longrightarrow> \<not> is_space (hd s) \<Longrightarrow> \<not> is_space (last s) \<Longrightarrow> strip s = s"
proof -
  assume ne: "s \<noteq> []" and h: "\<not> is_space (hd s)" and l: "\<not> is_space (last s)"
  have 1: "dropWhile is_space s = s" using h by (simp add: dropWhile_eq_self_iff)
  have "hd (rev s) = last s" using ne by (simp add: hd_rev)
  then have 2: "dropWhile is_space (rev s) = rev s" using l by (simp add: dropWhile_eq_self_iff)
  show ?thesis by (simp add: strip_def 1 2)
qed

lemma str_nat_ends:
  "\<not> is_space (last (str_nat n))" "\<not> is_space (hd (str_nat n))"
  "hd (str_nat n) \<noteq> CHR ''-''" "hd (str_nat n) \<noteq> CHR ''+''"
proof -
  have "is_digit (last (str_nat n))" "is_digit (hd (str_nat n))"
    using str_nat_digits [of n] by (auto simp: list_all_iff)
  then show "\<not> is_space (last (str_nat n))" "\<not> is_space (hd (str_nat n))"
    "hd (str_nat n) \<noteq> CHR ''-''" "hd (str_nat n) \<noteq> CHR ''+''"
    using digit_not_space by blast+
qed

lemma py_int_str_int: "py_int (str_int i) = Some i"
proof (cases "i < 0")
  case True
  have ne: "str_nat (nat (- i)) \<noteq> []" using str_nat_digits by simp
  have "strip (CHR ''-'' # str_nat (nat (- i))) = CHR ''-'' # str_nat (nat (- i))"
    using ne str_nat_ends(1) [of "nat (- i)"]
    by (intro strip_id) (simp_all add: is_space_def)
  with True show ?thesis
    by (simp add: py_int_def str_int_def decimal_str_nat)
next
  case False
  have ne: "str_nat (nat i) \<noteq> []" using str_nat_digits by simp
  have st: "strip (str_nat (nat i)) = str_nat (nat i)"
    using ne str_nat_ends [of "nat i"] by (intro strip_id) simp_all
  obtain c r where cr: "str_nat (nat i) = c # r" using ne by (cases "str_nat (nat i)") auto
  have "c \<noteq> CHR ''-''" "c \<noteq> CHR ''+''" using str_nat_ends(3,4) [of "nat i"] cr by simp_all
  then show ?thesis using False decimal_str_nat [of "nat i"] st cr
    by (simp add: py_int_def str_int_def)
qed


section \<open>The snapshot cache\<close>

lemma already_unpacked_iff:
  "already_unpacked e s m \<longleftrightarrow> (\<exists>c. files s (gonk_mtime_file e) = Some c \<and> py_int c = Some m)"
  by (auto simp: already_unpacked_def read_prev_mtime_def read_from_file_def
      split: option.splits)

lemma trace_emit: "trace (emit ev s) = trace s @ [ev]"
  by (simp add: emit_def)

text \<open>
  C1. With the snapshot present, \<^verbatim>\<open>unpack_gonk\<close> skips the unpack (it returns after the one
  log line, nothing else done) if and only if the fingerprint file is there and parses as
  an integer equal to the snapshot's modification time. When the file is absent,
  unparsable or holds another number, the extraction is invoked, and the stage fails only
  if the extraction does: the failed read is never fatal.
\<close>

theorem unpack_gonk_skip_iff:
  assumes "getmtime e (gonk_snapshot e) = Some mtime"
  shows "((unpack_gonk e s = (Ok (), info ''We already have this gonk unpacked; skipping'' s))
          \<longleftrightarrow> (\<exists>c. files s (gonk_mtime_file e) = Some c \<and> py_int c = Some mtime))
       \<and> ((files s (gonk_mtime_file e) = None
            \<or> (\<exists>c. files s (gonk_mtime_file e) = Some c \<and> py_int c \<noteq> Some mtime))
           \<longrightarrow> prefix (trace s @ [RunCommand tar_command (Some (work_dir (abs_dirs e)))])
                 (trace (snd (unpack_gonk e s)))
             \<and> fst (unpack_gonk e s) =
                 (if exit_status e (trace s) (RunCommand tar_command (Some (work_dir (abs_dirs e)))) = 0
                  then Ok () else Fatal 2))"
proof -
  let ?tar = "RunCommand tar_command (Some (work_dir (abs_dirs e)))"
  let ?hit = "\<exists>c. files s (gonk_mtime_file e) = Some c \<and> py_int c = Some mtime"
  have hit: "already_unpacked e s mtime \<longleftrightarrow> ?hit" by (rule already_unpacked_iff)
  have skip: "unpack_gonk e s = (Ok (), info ''We already have this gonk unpacked; skipping'' s)"
    if "?hit"
  proof -
    from that hit have "already_unpacked e s mtime" by simp
    then show ?thesis using assms by (simp add: unpack_gonk_def)
  qed
  have miss_trace: "prefix (trace s @ [?tar]) (trace (snd (unpack_gonk e s)))" if "\<not> ?hit"
  proof -
    from that hit have "\<not> already_unpacked e s mtime" by simp
    then show ?thesis using assms
      by (simp add: unpack_gonk_def run_command_def fatal_def write_to_file_def info_def
          trace_emit prefix_def)
  qed
  have miss_out: "fst (unpack_gonk e s) =
      (if exit_status e (trace s) ?tar = 0 then Ok () else Fatal 2)" if "\<not> ?hit"
  proof -
    from that hit have "\<not> already_unpacked e s mtime" by simp
    then show ?thesis using assms
      by (simp add: unpack_gonk_def run_command_def fatal_def)
  qed
  have differ: "\<not> ?hit \<Longrightarrow> unpack_gonk e s \<noteq> (Ok (), info ''We already have this gonk unpacked; skipping'' s)"
  proof
    assume nh: "\<not> ?hit" and eq: "unpack_gonk e s = (Ok (), info ''We already have this gonk unpacked; skipping'' s)"
    from miss_trace [OF nh] eq
    have "prefix (trace s @ [?tar]) (trace s @ [Log INFO ''We already have this gonk unpacked; skipping''])"
      by (simp add: info_def trace_emit)
    then show False by simp
  qed
  have miss: "(files s (gonk_mtime_file e) = None
            \<or> (\<exists>c. files s (gonk_mtime_file e) = Some c \<and> py_int c \<noteq> Some mtime)) \<Longrightarrow> \<not> ?hit"
    by auto
  show ?thesis using skip differ miss miss_trace miss_out by blast
qed


lemma demo_paths:
  "gonk_snapshot demo_env = ''/builds/b2g/gonk.tar.xz''"
  "gonk_mtime_file demo_env = ''/builds/b2g/.gonk_mtime''"
  by (simp_all add: gonk_snapshot_def gonk_mtime_file_def demo_env_def demo_dirs_def
      path_join_def join2_def startswith_def endswith_def)

lemma py_int_demo: "py_int demo_fingerprint = Some 1357000000"
  by (simp add: demo_fingerprint_def add: py_int_def strip_def decimal_def is_space_def is_digit_def digit_val_def
      newline_def)

theorem unpack_gonk_skip_iff_witness:
  "getmtime demo_env (gonk_snapshot demo_env) = Some 1357000000
   \<and> unpack_gonk demo_env
       (demo_state\<lparr>files := [''/builds/b2g/.gonk_mtime'' \<mapsto> demo_fingerprint]\<rparr>)
     = (Ok (), info ''We already have this gonk unpacked; skipping''
         (demo_state\<lparr>files := [''/builds/b2g/.gonk_mtime'' \<mapsto> demo_fingerprint]\<rparr>))
   \<and> fst (unpack_gonk demo_env (demo_state\<lparr>files := [''/builds/b2g/.gonk_mtime'' \<mapsto> ''garbage'']\<rparr>))
     = Ok ()"
proof -
  have h: "getmtime demo_env (gonk_snapshot demo_env) = Some 1357000000"
    by (simp add: demo_paths) (simp add: demo_env_def)
  have g: "py_int ''garbage'' \<noteq> Some 1357000000"
    by (simp add: py_int_def strip_def decimal_def is_space_def is_digit_def)
  have st: "exit_status demo_env t ev = 0" for t ev by (simp add: demo_env_def)
  show ?thesis
    using h g
      unpack_gonk_skip_iff [OF h,
        of "demo_state\<lparr>files := [''/builds/b2g/.gonk_mtime'' \<mapsto> demo_fingerprint]\<rparr>"]
      unpack_gonk_skip_iff [OF h,
        of "demo_state\<lparr>files := [''/builds/b2g/.gonk_mtime'' \<mapsto> ''garbage'']\<rparr>"]
    by (simp add: demo_paths py_int_demo st)
qed

lemma info_frame:
  "files (info msg s) = files s" "commands (info msg s) = commands s"
  "transfers (info msg s) = transfers s" "return_code (info msg s) = return_code s"
  by (simp_all add: info_def emit_def commands_def transfers_def)

text \<open>
  C4. After a run of \<^verbatim>\<open>unpack_gonk\<close> that completes, a real unpack has persisted the
  modification time as the fingerprint, whatever the fingerprint file held before (also
  nothing: the first unpack); and a second run that finds the same snapshot modification
  time and the fingerprint file as the first run left it is a no-op: it returns after the
  one log line and invokes the executor not at all.
\<close>

theorem unpack_gonk_idempotent:
  assumes "unpack_gonk e s = (Ok (), s1)"
    and "abs_dirs e' = abs_dirs e"
    and "getmtime e' (gonk_snapshot e') = getmtime e (gonk_snapshot e)"
    and "files s2 (gonk_mtime_file e') = files s1 (gonk_mtime_file e)"
  shows "\<exists>mtime. getmtime e (gonk_snapshot e) = Some mtime
           \<and> (already_unpacked e s mtime
               \<or> files s1 (gonk_mtime_file e) = Some (str_int mtime))
           \<and> unpack_gonk e' s2 = (Ok (), info ''We already have this gonk unpacked; skipping'' s2)
           \<and> commands (snd (unpack_gonk e' s2)) = commands s2"
proof -
  from assms(1) obtain mtime where m: "getmtime e (gonk_snapshot e) = Some mtime"
    by (auto simp: unpack_gonk_def split: option.splits)
  have persisted: "files s1 (gonk_mtime_file e) = Some (str_int mtime)"
    if "\<not> already_unpacked e s mtime"
    using assms(1) m that
    by (auto simp: unpack_gonk_def run_command_def fatal_def write_to_file_def info_def
        emit_def split: if_splits)
  have kept: "files s1 (gonk_mtime_file e) = files s (gonk_mtime_file e)"
    if "already_unpacked e s mtime"
    using assms(1) m that by (auto simp: unpack_gonk_def info_frame)
  have "\<exists>c. files s1 (gonk_mtime_file e) = Some c \<and> py_int c = Some mtime"
  proof (cases "already_unpacked e s mtime")
    case True
    then show ?thesis using kept by (simp add: already_unpacked_iff)
  next
    case False
    then show ?thesis using persisted by (simp add: py_int_str_int)
  qed
  then have "already_unpacked e' s2 mtime"
    using assms(4) by (simp add: already_unpacked_iff)
  moreover have "getmtime e' (gonk_snapshot e') = Some mtime" using assms(3) m by simp
  ultimately have again:
    "unpack_gonk e' s2 = (Ok (), info ''We already have this gonk unpacked; skipping'' s2)"
    by (simp add: unpack_gonk_def)
  show ?thesis using m persisted again by (auto simp: info_frame)
qed

theorem unpack_gonk_idempotent_witness:
  "unpack_gonk demo_env demo_state = (Ok (), demo_unpacked)
   \<and> length (commands demo_unpacked) = 2
   \<and> files demo_unpacked ''/builds/b2g/.gonk_mtime'' = Some (str_int 1357000000)
   \<and> unpack_gonk demo_env demo_unpacked
       = (Ok (), info ''We already have this gonk unpacked; skipping'' demo_unpacked)
   \<and> length (commands (snd (unpack_gonk demo_env demo_unpacked))) = 2"
proof -
  have h: "getmtime demo_env (gonk_snapshot demo_env) = Some 1357000000"
    by (simp add: demo_paths) (simp add: demo_env_def)
  have st: "exit_status demo_env t ev = 0" for t ev by (simp add: demo_env_def)
  have miss: "\<not> already_unpacked demo_env demo_state m" for m
    by (simp add: already_unpacked_iff demo_state_def)
  have first: "unpack_gonk demo_env demo_state = (Ok (), demo_unpacked)"
    by (simp add: demo_unpacked_def unpack_gonk_def h miss run_command_def st)
  have "commands demo_unpacked = commands demo_state
      @ [RunCommand tar_command (Some (work_dir (abs_dirs demo_env))),
         RunCommand [''cat'', ''sources.xml''] (Some (work_dir (abs_dirs demo_env)))]"
    by (simp add: demo_unpacked_def unpack_gonk_def h miss run_command_def st commands_def
        write_to_file_def info_def emit_def)
  then have cmds: "length (commands demo_unpacked) = 2"
    by (simp add: commands_def demo_state_def)
  from unpack_gonk_idempotent [OF first refl refl refl] h miss cmds first
  show ?thesis by (auto simp: demo_paths)
qed

section \<open>The update packaging workflow outside nightly builds\<close>

text \<open>
  C6. When the nightly-build flag is false, each of \<^verbatim>\<open>make_updates\<close>,
  \<^verbatim>\<open>make_update_xml\<close> and \<^verbatim>\<open>upload_updates\<close> returns normally after one informational
  log line and nothing else: no executor invocation and no transfer is added.
\<close>

theorem not_nightly_noop:
  assumes "\<not> is_nightly e"
  shows "make_updates e s = (Ok (), emit (Log INFO ''Not a nightly build. Skipping...'') s)
       \<and> make_update_xml e s = (Ok (), emit (Log INFO ''Not a nightly build. Skipping...'') s)
       \<and> upload_updates e s = (Ok (), emit (Log INFO ''Not a nightly build. Skipping...'') s)
       \<and> commands (emit (Log INFO ''Not a nightly build. Skipping...'') s) = commands s
       \<and> transfers (emit (Log INFO ''Not a nightly build. Skipping...'') s) = transfers s"
  using assms
  by (simp add: make_updates_def make_update_xml_def upload_updates_def not_nightly_msg_def
      info_def emit_def commands_def transfers_def)

theorem not_nightly_noop_witness:
  "make_updates demo_env demo_state
     = (Ok (), emit (Log INFO ''Not a nightly build. Skipping...'') demo_state)
   \<and> make_update_xml demo_env demo_state
     = (Ok (), emit (Log INFO ''Not a nightly build. Skipping...'') demo_state)
   \<and> upload_updates demo_env demo_state
     = (Ok (), emit (Log INFO ''Not a nightly build. Skipping...'') demo_state)
   \<and> commands (snd (make_updates demo_env demo_state)) = []
   \<and> transfers (snd (upload_updates demo_env demo_state)) = []"
proof -
  have h: "\<not> is_nightly demo_env" by (simp add: demo_env_def)
  have c: "commands demo_state = []" "transfers demo_state = []"
    by (simp_all add: commands_def transfers_def demo_state_def)
  from not_nightly_noop [OF h, of demo_state] c show ?thesis by simp
qed

section \<open>The publisher\<close>

lemma transfers_emit:
  "transfers (emit ev s) = transfers s @ (if is_transfer ev then [ev] else [])"
  by (simp add: transfers_def emit_def)

lemma commands_emit:
  "commands (emit ev s) = commands s @ (if is_command ev then [ev] else [])"
  by (simp add: commands_def emit_def)

lemma transfers_log:
  "transfers (info msg s) = transfers s" "transfers (error msg s) = transfers s"
  "transfers (s\<lparr>return_code := c\<rparr>) = transfers s"
  by (simp_all add: info_def error_def emit_def transfers_def)

lemma upload_transfers:
  assumes "upload_path e s = Ok path"
  shows "fst (upload e s) = Ok ()
   \<and> transfers (snd (upload e s)) = transfers s
       @ [RsyncUploadDirectory (abs_upload_dir (abs_dirs e)) (ssh_key (config e))
            (ssh_user (config e)) (upload_remote_host (config e)) path None]"
proof (cases "rsync_result e (trace s)
    (RsyncUploadDirectory (abs_upload_dir (abs_dirs e)) (ssh_key (config e))
       (ssh_user (config e)) (upload_remote_host (config e)) path None)")
  case None
  then show ?thesis using assms
    by (simp add: upload_def rsync_upload_directory_def Let_def transfers_log transfers_emit)
next
  case (Some a)
  then show ?thesis using assms
    by (simp add: upload_def rsync_upload_directory_def Let_def transfers_log transfers_emit)
qed

text \<open>
  C3. The destination path of \<^verbatim>\<open>upload\<close> is one of two templates, chosen by
  \<^verbatim>\<open>enable_try_uploads\<close>: in try mode basepath/user-revision/branch-target, otherwise
  basepath/branch-target/buildid, where the build identifier is what the first
  \<^verbatim>\<open>BuildID=<digits>\<close> line of the platform metadata file holds. The one transfer of the
  stage goes to that path.
\<close>

theorem upload_path_templates:
  "(enable_try_uploads (config e) \<and> upload_user e = Ok user \<and> query_branch e = Ok branch
      \<and> query_revision e s = Ok revision
    \<longrightarrow> upload_path e s =
          Ok (opt_str (upload_remote_basepath (config e)) @ ''/'' @ py_str e user @ ''-''
              @ py_str e revision @ ''/'' @ py_str e branch @ ''-'' @ target (config e)))
   \<and> (\<not> enable_try_uploads (config e) \<and> query_branch e = Ok branch
      \<and> files s (platform_ini e) = Some data
    \<longrightarrow> upload_path e s =
          Ok (opt_str (upload_remote_basepath (config e)) @ ''/'' @ py_str e branch @ ''-''
              @ target (config e) @ ''/''
              @ opt_str (first_match buildid_of_line (split_on newline data))))
   \<and> (upload_path e s = Ok path
    \<longrightarrow> transfers (snd (upload e s)) = transfers s
          @ [RsyncUploadDirectory (abs_upload_dir (abs_dirs e)) (ssh_key (config e))
               (ssh_user (config e)) (upload_remote_host (config e)) path None])"
  using upload_transfers [of e s path]
  by (simp add: upload_path_def try_path_def dated_path_def query_buildid_def
      read_from_file_def)

lemma demo_platform_path:
  "platform_ini demo_env = ''/builds/b2g/out/target/product/device-x/system/b2g/platform.ini''"
  by (simp add: platform_ini_def demo_env_def demo_dirs_def demo_config_def
      path_join_def join2_def startswith_def endswith_def)

lemma demo_buildid:
  "first_match buildid_of_line (split_on newline demo_platform_ini) = Some ''20240101010101''"
  by (simp add: demo_platform_ini_def newline_def buildid_of_line_def startswith_def
      is_digit_def)

lemma demo_branch: "query_branch demo_env = Ok (JStr ''main'')"
  by (simp add: query_branch_def query_repo_def has_section_def demo_env_def demo_config_def
      basename_def)

lemma demo_try_queries:
  "upload_user demo_try_env = Ok (JStr ''dev@example.com'')"
  "query_branch demo_try_env = Ok (JStr ''try'')"
  "query_revision demo_try_env demo_built = Ok (JStr ''abcdef123456'')"
  by (simp_all add: upload_user_def changes_who_def buildbot_section_def dict_get_def
      query_branch_def query_revision_def has_section_def demo_try_env_def demo_built_def
      demo_state_def)

lemma demo_config_simps:
  "config demo_env = demo_config" "abs_dirs demo_env = demo_dirs"
  "config demo_try_env = demo_config\<lparr>enable_try_uploads := True\<rparr>"
  "abs_dirs demo_try_env = demo_dirs"
  "py_str e (JStr x) = x"
  by (simp_all add: demo_env_def demo_try_env_def py_str_def)

theorem upload_path_templates_witness:
  "upload_path demo_env demo_built
     = Ok ''/pub/b2g/tinderbox-builds/main-device-x/20240101010101''
   \<and> upload_path demo_try_env demo_built
     = Ok ''/pub/b2g/tinderbox-builds/dev@example.com-abcdef123456/try-device-x''
   \<and> transfers (snd (upload demo_env demo_built))
     = [RsyncUploadDirectory ''/builds/b2g/upload'' (Some ''/home/cltbld/.ssh/b2gbld_dsa'')
          (Some ''b2gbld'') (Some ''stage.example.org'')
          ''/pub/b2g/tinderbox-builds/main-device-x/20240101010101'' None]"
proof -
  have f: "files demo_built (platform_ini demo_env) = Some demo_platform_ini"
    by (simp add: demo_platform_path demo_built_def)
  have nt: "\<not> enable_try_uploads (config demo_env)"
    by (simp add: demo_config_simps demo_config_def)
  have tt: "enable_try_uploads (config demo_try_env)"
    by (simp add: demo_config_simps)
  have p1: "upload_path demo_env demo_built
     = Ok ''/pub/b2g/tinderbox-builds/main-device-x/20240101010101''"
    using upload_path_templates [where e = demo_env and s = demo_built
        and branch = "JStr ''main''" and data = demo_platform_ini] nt f demo_branch
    by (simp add: demo_buildid demo_config_simps demo_config_def opt_str_def)
  have p2: "upload_path demo_try_env demo_built
     = Ok ''/pub/b2g/tinderbox-builds/dev@example.com-abcdef123456/try-device-x''"
    using upload_path_templates [where e = demo_try_env and s = demo_built
        and user = "JStr ''dev@example.com''" and branch = "JStr ''try''"
        and revision = "JStr ''abcdef123456''"] tt demo_try_queries
    by (simp add: demo_config_simps demo_config_def opt_str_def)
  have "transfers demo_built = []" by (simp add: transfers_def demo_built_def demo_state_def)
  then have p3: "transfers (snd (upload demo_env demo_built))
     = [RsyncUploadDirectory ''/builds/b2g/upload'' (Some ''/home/cltbld/.ssh/b2gbld_dsa'')
          (Some ''b2gbld'') (Some ''stage.example.org'')
          ''/pub/b2g/tinderbox-builds/main-device-x/20240101010101'' None]"
    using upload_path_templates [where e = demo_env and s = demo_built
        and path = "''/pub/b2g/tinderbox-builds/main-device-x/20240101010101''"] p1
    by (simp add: demo_config_simps demo_config_def demo_dirs_def)
  show ?thesis using p1 p2 p3 by simp
qed

lemma query_never_fatal:
  "query_branch e \<noteq> Fatal c" "query_revision e s \<noteq> Fatal c"
proof -
  have d: "dict_get m k \<noteq> Fatal c" for m k
    by (simp add: dict_get_def split: option.splits)
  have g: "getitem v k \<noteq> Fatal c" for v k
    by (cases v) (simp_all add: d)
  have b: "buildbot_section e k \<noteq> Fatal c" for k
    by (simp add: buildbot_section_def d split: option.splits)
  show "query_branch e \<noteq> Fatal c"
    using g b
    by (auto simp: query_branch_def query_repo_def split: result.splits if_splits)
  show "query_revision e s \<noteq> Fatal c"
    using g b d
    by (auto simp: query_revision_def split: result.splits if_splits)
qed

text \<open>
  C10, as amended. In try mode, a \<^verbatim>\<open>KeyError\<close> raised by the lookup of the submitter is
  caught and the submitter is the string \<^verbatim>\<open>unknown\<close>. What the stage then does is decided
  by the two lookups outside the \<^verbatim>\<open>try\<close> block: when the branch and the revision resolve,
  the stage completes and its one transfer goes to basepath/unknown-revision/branch-target;
  when the branch lookup raises, or the revision lookup does, that exception leaves the
  stage and no transfer is made. Neither lookup is ever fatal.
\<close>

theorem upload_unknown_submitter:
  assumes "enable_try_uploads (config e)"
    and "changes_who e = Raise KeyError"
  shows "upload_user e = Ok (JStr ''unknown'')
       \<and> (query_branch e = Ok branch \<and> query_revision e s = Ok revision
          \<longrightarrow> upload_path e s =
                Ok (opt_str (upload_remote_basepath (config e)) @ ''/'' @ ''unknown'' @ ''-''
                    @ py_str e revision @ ''/'' @ py_str e branch @ ''-'' @ target (config e))
              \<and> fst (upload e s) = Ok ()
              \<and> transfers (snd (upload e s)) = transfers s
                  @ [RsyncUploadDirectory (abs_upload_dir (abs_dirs e)) (ssh_key (config e))
                       (ssh_user (config e)) (upload_remote_host (config e))
                       (opt_str (upload_remote_basepath (config e)) @ ''/'' @ ''unknown'' @ ''-''
                        @ py_str e revision @ ''/'' @ py_str e branch @ ''-''
                        @ target (config e))
                       None])
       \<and> (query_branch e = Raise x \<longrightarrow> upload e s = (Raise x, s))
       \<and> (query_branch e = Ok branch \<and> query_revision e s = Raise x
          \<longrightarrow> upload e s = (Raise x, s))
       \<and> query_branch e \<noteq> Fatal c \<and> query_revision e s \<noteq> Fatal c"
proof -
  have u: "upload_user e = Ok (JStr ''unknown'')"
    using assms(2) by (simp add: upload_user_def)
  let ?path = "opt_str (upload_remote_basepath (config e)) @ ''/'' @ ''unknown'' @ ''-''
               @ py_str e revision @ ''/'' @ py_str e branch @ ''-'' @ target (config e)"
  have ok: "upload_path e s = Ok ?path \<and> fst (upload e s) = Ok ()
      \<and> transfers (snd (upload e s)) = transfers s
          @ [RsyncUploadDirectory (abs_upload_dir (abs_dirs e)) (ssh_key (config e))
               (ssh_user (config e)) (upload_remote_host (config e)) ?path None]"
    if "query_branch e = Ok branch" "query_revision e s = Ok revision"
  proof -
    have p: "upload_path e s = Ok ?path"
      using assms(1) u that by (simp add: upload_path_def try_path_def py_str_def)
    show ?thesis using p upload_transfers [OF p] by simp
  qed
  have nb: "upload e s = (Raise x, s)" if "query_branch e = Raise x"
    using assms(1) u that by (simp add: upload_def upload_path_def)
  have nr: "upload e s = (Raise x, s)"
    if "query_branch e = Ok branch" "query_revision e s = Raise x"
    using assms(1) u that by (simp add: upload_def upload_path_def)
  show ?thesis using u ok nb nr query_never_fatal by blast
qed

lemma demo_nobranch:
  "enable_try_uploads (config demo_nobranch_env)"
  "changes_who demo_nobranch_env = Raise KeyError"
  "query_branch demo_nobranch_env = Raise KeyError"
  by (simp_all add: demo_nobranch_env_def changes_who_def buildbot_section_def dict_get_def
      query_branch_def has_section_def)

lemma demo_norevision:
  "enable_try_uploads (config demo_norevision_env)"
  "changes_who demo_norevision_env = Raise KeyError"
  "query_branch demo_norevision_env = Ok (JStr ''try'')"
  "query_revision demo_norevision_env demo_built = Raise KeyError"
  by (simp_all add: demo_norevision_env_def changes_who_def buildbot_section_def dict_get_def
      query_branch_def query_revision_def has_section_def demo_built_def demo_state_def)

theorem upload_unknown_submitter_witness:
  "changes_who demo_anon_env = Raise KeyError
   \<and> upload_path demo_anon_env demo_built
       = Ok ''/pub/b2g/tinderbox-builds/unknown-abcdef123456/try-device-x''
   \<and> fst (upload demo_anon_env demo_built) = Ok ()
   \<and> length (transfers (snd (upload demo_anon_env demo_built))) = 1
   \<and> upload demo_nobranch_env demo_built = (Raise KeyError, demo_built)
   \<and> upload demo_norevision_env demo_built = (Raise KeyError, demo_built)"
proof -
  have c: "config demo_anon_env = demo_config\<lparr>enable_try_uploads := True\<rparr>"
    by (simp add: demo_anon_env_def)
  have h1: "enable_try_uploads (config demo_anon_env)" by (simp add: c)
  have h2: "changes_who demo_anon_env = Raise KeyError"
    by (simp add: changes_who_def buildbot_section_def dict_get_def demo_anon_env_def)
  have h3: "query_branch demo_anon_env = Ok (JStr ''try'')"
    by (simp add: query_branch_def has_section_def buildbot_section_def dict_get_def
        demo_anon_env_def)
  have h4: "query_revision demo_anon_env demo_built = Ok (JStr ''abcdef123456'')"
    by (simp add: query_revision_def has_section_def buildbot_section_def dict_get_def
        demo_anon_env_def demo_built_def demo_state_def)
  have t: "transfers demo_built = []" by (simp add: transfers_def demo_built_def demo_state_def)
  have a: "upload_path demo_anon_env demo_built
       = Ok ''/pub/b2g/tinderbox-builds/unknown-abcdef123456/try-device-x''
     \<and> fst (upload demo_anon_env demo_built) = Ok ()
     \<and> length (transfers (snd (upload demo_anon_env demo_built))) = 1"
    using upload_unknown_submitter [OF h1 h2, where s = demo_built
        and branch = "JStr ''try''" and revision = "JStr ''abcdef123456''"] h3 h4 t
    by (simp add: c demo_config_def opt_str_def demo_config_simps)
  have b: "upload demo_nobranch_env demo_built = (Raise KeyError, demo_built)"
    using upload_unknown_submitter [OF demo_nobranch(1,2), where s = demo_built
        and x = KeyError] demo_nobranch(3)
    by simp
  have r: "upload demo_norevision_env demo_built = (Raise KeyError, demo_built)"
    using upload_unknown_submitter [OF demo_norevision(1,2), where s = demo_built
        and x = KeyError and branch = "JStr ''try''"] demo_norevision(3,4)
    by simp
  show ?thesis using h2 a b r by simp
qed

text \<open>
  C10, as stated, fails: in try mode with scheduler properties that hold no
  \<^verbatim>\<open>sourcestamp\<close> and no \<^verbatim>\<open>branch\<close>, the submitter lookup raises a \<^verbatim>\<open>KeyError\<close> and
  \<^verbatim>\<open>unknown\<close> is substituted, but the branch lookup raises a \<^verbatim>\<open>KeyError\<close> that leaves the
  stage, and no transfer is made.
\<close>

theorem upload_unknown_submitter_can_fail:
  "enable_try_uploads (config demo_nobranch_env)
   \<and> changes_who demo_nobranch_env = Raise KeyError
   \<and> upload_user demo_nobranch_env = Ok (JStr ''unknown'')
   \<and> upload demo_nobranch_env demo_built = (Raise KeyError, demo_built)
   \<and> transfers (snd (upload demo_nobranch_env demo_built)) = []"
proof -
  have u: "upload_user demo_nobranch_env = Ok (JStr ''unknown'')"
    by (simp add: upload_user_def demo_nobranch)
  have p: "upload demo_nobranch_env demo_built = (Raise KeyError, demo_built)"
    by (simp add: upload_def upload_path_def demo_nobranch u)
  have t: "transfers demo_built = []" by (simp add: transfers_def demo_built_def demo_state_def)
  show ?thesis using u p t demo_nobranch by simp
qed

lemma run_stages_started_hd:
  "fst (snd (run_stages table (a # rest) e s)) \<noteq> []
   \<and> hd (fst (snd (run_stages table (a # rest) e s))) = a"
  by (cases "table a e s" rule: prod.exhaust; cases "fst (table a e s)")
     (auto split: prod.splits)

text \<open>
  C5. When the transfer of \<^verbatim>\<open>upload\<close> reports a status other than \<^verbatim>\<open>None\<close>, the
  stage logs the error, sets the return code to 2 and returns normally; the pipeline
  goes on to the next selected stage, and a run that ends there exits with code 2.
\<close>

theorem upload_failure_degrades:
  assumes "upload_path e s = Ok path"
    and "rsync_result e (trace s)
           (RsyncUploadDirectory (abs_upload_dir (abs_dirs e)) (ssh_key (config e))
              (ssh_user (config e)) (upload_remote_host (config e)) path None) = Some status"
    and "table ''upload'' = upload"
  shows "fst (upload e s) = Ok ()
       \<and> return_code (snd (upload e s)) = 2
       \<and> trace (snd (upload e s)) = trace s
           @ [RsyncUploadDirectory (abs_upload_dir (abs_dirs e)) (ssh_key (config e))
                (ssh_user (config e)) (upload_remote_host (config e)) path None,
              Log ERROR ''failed to upload'']
       \<and> exit_code (run_stages table [''upload''] e s) = 2
       \<and> run_stages table (''upload'' # a # rest) e s =
           (case run_stages table (a # rest) e (snd (upload e s)) of
              (r, started, s2) \<Rightarrow> (r, ''upload'' # started, s2))
       \<and> take 2 (fst (snd (run_stages table (''upload'' # a # rest) e s))) = [''upload'', a]"
proof -
  let ?ev = "RsyncUploadDirectory (abs_upload_dir (abs_dirs e)) (ssh_key (config e))
              (ssh_user (config e)) (upload_remote_host (config e)) path None"
  have up: "upload e s = (Ok (), (error ''failed to upload'' (emit ?ev s))\<lparr>return_code := 2\<rparr>)"
    using assms(1,2) by (simp add: upload_def rsync_upload_directory_def Let_def)
  have 1: "fst (upload e s) = Ok ()" "return_code (snd (upload e s)) = 2"
    "trace (snd (upload e s)) = trace s @ [?ev, Log ERROR ''failed to upload'']"
    by (simp_all add: up error_def emit_def)
  have 2: "exit_code (run_stages table [''upload''] e s) = 2"
    by (simp add: assms(3) up exit_code_def)
  have 3: "run_stages table (''upload'' # a # rest) e s =
           (case run_stages table (a # rest) e (snd (upload e s)) of
              (r, started, s2) \<Rightarrow> (r, ''upload'' # started, s2))"
    by (simp add: assms(3) up)
  obtain r started s2 where rs: "run_stages table (a # rest) e (snd (upload e s)) = (r, started, s2)"
    by (cases "run_stages table (a # rest) e (snd (upload e s))") auto
  have "started \<noteq> [] \<and> hd started = a"
    using run_stages_started_hd [of table a rest e "snd (upload e s)"] rs by simp
  then have 4: "take 2 (fst (snd (run_stages table (''upload'' # a # rest) e s))) = [''upload'', a]"
    using 3 rs by (cases started) simp_all
  show ?thesis using 1 2 3 4 by simp
qed

theorem upload_failure_degrades_witness:
  "fst (upload demo_offline_env demo_built) = Ok ()
   \<and> return_code (snd (upload demo_offline_env demo_built)) = 2
   \<and> take 2 (fst (snd (run_stages demo_table [''upload'', ''upload-updates'', ''upload''] 
                          demo_offline_env demo_built)))
       = [''upload'', ''upload-updates'']"
proof -
  have c: "config demo_offline_env = demo_config" "abs_dirs demo_offline_env = demo_dirs"
    by (simp_all add: demo_offline_env_def demo_env_def)
  have b: "query_branch demo_offline_env = Ok (JStr ''main'')"
    by (simp add: query_branch_def query_repo_def has_section_def demo_offline_env_def
        demo_env_def demo_config_def basename_def)
  have pl: "platform_ini demo_offline_env = platform_ini demo_env"
    by (simp add: platform_ini_def c demo_config_simps)
  have qb: "query_buildid demo_offline_env demo_built = Ok (Some ''20240101010101'')"
    by (simp add: query_buildid_def read_from_file_def pl demo_platform_path demo_built_def
        demo_buildid)
  have p: "upload_path demo_offline_env demo_built
     = Ok ''/pub/b2g/tinderbox-builds/main-device-x/20240101010101''"
    by (simp add: upload_path_def b qb dated_path_def opt_str_def py_str_def c demo_config_def)
  have r: "rsync_result demo_offline_env t ev = Some (- 1)" for t ev
    by (simp add: demo_offline_env_def)
  have tb: "demo_table ''upload'' = upload" by (simp add: demo_table_def)
  from upload_failure_degrades [where e = demo_offline_env and s = demo_built
      and table = demo_table and a = "''upload-updates''" and rest = "[''upload'']", OF p r tb]
  show ?thesis by (elim conjE) (intro conjI, assumption+)
qed

section \<open>Failures in the update packaging workflow\<close>

lemma update_rsync_props:
  "return_code (update_rsync e u opts s) =
     (if rsync_result e (trace s)
           (RsyncUploadDirectory (updates_dir e) (Some (u_ssh_key u)) (Some (u_ssh_user u))
              (Some (u_upload_remote_host u)) (u_upload_remote_basepath u) opts) \<noteq> None
      then 2 else return_code s)"
  "trace (update_rsync e u opts s) = trace s
     @ [RsyncUploadDirectory (updates_dir e) (Some (u_ssh_key u)) (Some (u_ssh_user u))
          (Some (u_upload_remote_host u)) (u_upload_remote_basepath u) opts,
        if rsync_result e (trace s)
           (RsyncUploadDirectory (updates_dir e) (Some (u_ssh_key u)) (Some (u_ssh_user u))
              (Some (u_upload_remote_host u)) (u_upload_remote_basepath u) opts) \<noteq> None
        then Log ERROR ''failed to upload'' else Log INFO ''Upload successful'']"
  by (auto simp: update_rsync_def rsync_upload_directory_def Let_def error_def info_def emit_def)

lemma update_rsync_transfers:
  "transfers (update_rsync e u opts s) = transfers s
     @ [RsyncUploadDirectory (updates_dir e) (Some (u_ssh_key u)) (Some (u_ssh_user u))
          (Some (u_upload_remote_host u)) (u_upload_remote_basepath u) opts]"
  by (simp add: transfers_def update_rsync_props)

lemma upload_updates_nightly:
  assumes "is_nightly e" and "update (config e) = Some u"
  shows "upload_updates e s =
     (Ok (), if autopublish u
             then update_rsync e u None
                    (update_rsync e u (Some [''-azv'', ''--exclude=update.xml'']) s)
             else update_rsync e u (Some [''-azv'', ''--exclude=update.xml'']) s)"
  using assms by (simp add: upload_updates_def Let_def)

text \<open>
  C2, as amended. Inside the update packaging workflow a non-zero exit status of the
  executor (the update build of \<^verbatim>\<open>make_updates\<close>, the signing tool of \<^verbatim>\<open>sign_updates\<close>)
  and a failed manifest generation (\<^verbatim>\<open>make_update_xml\<close>) end the run with a fatal
  condition and a non-zero exit code, the fatal log line being the last thing the stage
  does. A transfer of \<^verbatim>\<open>upload_updates\<close> that reports non-success is not fatal, be it the
  first transfer or the second: the stage logs the error, sets the return code to 2 and
  returns normally, and with \<^verbatim>\<open>autopublish\<close> set the second transfer is made whatever the
  first reported. The events of the stage are exactly the transfers, each followed by its
  log line, and the return code is 2 exactly when a transfer reported non-success.
\<close>

theorem update_workflow_failures:
  "(is_nightly e \<and> load_gecko_config e s = (Ok g, s1)
      \<and> run_build_command e g update_command (write_userconfig e s1) = (Ok retval, s2)
      \<and> retval \<noteq> 0
    \<longrightarrow> make_updates e s = (Fatal 2, emit (Log FATAL ''failed to create complete update'') s2))
   \<and> (map_of (environ e) ''MOZ_SIGNING_SERVERS'' \<noteq> None
      \<and> (\<forall>t. exit_status e t (RunCommand (signtool_command e) None) \<noteq> 0)
    \<longrightarrow> fst (sign_updates e s) = Fatal 2
        \<and> last (trace (snd (sign_updates e s))) = Log FATAL ''failed to sign complete update'')
   \<and> (is_nightly e \<and> update (config e) = Some u \<and> files s (platform_ini e) = Some pdata
      \<and> files s (application_ini e) = Some adata \<and> (\<forall>t. \<not> update_xml_ok e t)
    \<longrightarrow> fst (make_update_xml e s) = Fatal (- 1)
        \<and> last (trace (snd (make_update_xml e s))) = Log FATAL ''Failed to generate update.xml'')
   \<and> (is_nightly e \<and> update (config e) = Some u
    \<longrightarrow> (let ev1 = RsyncUploadDirectory (updates_dir e) (Some (u_ssh_key u))
                      (Some (u_ssh_user u)) (Some (u_upload_remote_host u))
                      (u_upload_remote_basepath u) (Some [''-azv'', ''--exclude=update.xml'']);
              r1 = rsync_result e (trace s) ev1;
              l1 = (if r1 \<noteq> None then Log ERROR ''failed to upload''
                    else Log INFO ''Upload successful'');
              ev2 = RsyncUploadDirectory (updates_dir e) (Some (u_ssh_key u))
                      (Some (u_ssh_user u)) (Some (u_upload_remote_host u))
                      (u_upload_remote_basepath u) None;
              r2 = rsync_result e (trace s @ [ev1, l1]) ev2;
              l2 = (if r2 \<noteq> None then Log ERROR ''failed to upload''
                    else Log INFO ''Upload successful'')
          in fst (upload_updates e s) = Ok ()
             \<and> trace (snd (upload_updates e s))
                 = trace s @ [ev1, l1] @ (if autopublish u then [ev2, l2] else [])
             \<and> return_code (snd (upload_updates e s))
                 = (if r1 \<noteq> None \<or> (autopublish u \<and> r2 \<noteq> None) then 2 else return_code s)
             \<and> (r1 \<noteq> None \<or> (autopublish u \<and> r2 \<noteq> None)
                \<longrightarrow> Log ERROR ''failed to upload'' \<in> set (trace (snd (upload_updates e s))))
             \<and> (autopublish u
                \<longrightarrow> length (transfers (snd (upload_updates e s)))
                    = length (transfers s) + 2)))"
proof -
  have mk: "make_updates e s = (Fatal 2, emit (Log FATAL ''failed to create complete update'') s2)"
    if "is_nightly e" "load_gecko_config e s = (Ok g, s1)"
      "run_build_command e g update_command (write_userconfig e s1) = (Ok retval, s2)"
      "retval \<noteq> 0"
    using that by (simp add: make_updates_def fatal_def)
  have sg: "fst (sign_updates e s) = Fatal 2
        \<and> last (trace (snd (sign_updates e s))) = Log FATAL ''failed to sign complete update''"
    if "map_of (environ e) ''MOZ_SIGNING_SERVERS'' \<noteq> None"
      "\<forall>t. exit_status e t (RunCommand (signtool_command e) None) \<noteq> 0"
    using that
    by (simp add: sign_updates_def vcs_checkout_def run_command_def fatal_def emit_def)
  have xml: "fst (make_update_xml e s) = Fatal (- 1)
        \<and> last (trace (snd (make_update_xml e s))) = Log FATAL ''Failed to generate update.xml''"
    if "is_nightly e" "update (config e) = Some u" "files s (platform_ini e) = Some pdata"
      "files s (application_ini e) = Some adata" "\<forall>t. \<not> update_xml_ok e t"
    using that
    by (simp add: make_update_xml_def Let_def query_buildid_def query_version_def
        read_from_file_def rmtree_def info_def emit_def create_update_xml_def fatal_def)
  have up: "(let ev1 = RsyncUploadDirectory (updates_dir e) (Some (u_ssh_key u))
                      (Some (u_ssh_user u)) (Some (u_upload_remote_host u))
                      (u_upload_remote_basepath u) (Some [''-azv'', ''--exclude=update.xml'']);
              r1 = rsync_result e (trace s) ev1;
              l1 = (if r1 \<noteq> None then Log ERROR ''failed to upload''
                    else Log INFO ''Upload successful'');
              ev2 = RsyncUploadDirectory (updates_dir e) (Some (u_ssh_key u))
                      (Some (u_ssh_user u)) (Some (u_upload_remote_host u))
                      (u_upload_remote_basepath u) None;
              r2 = rsync_result e (trace s @ [ev1, l1]) ev2;
              l2 = (if r2 \<noteq> None then Log ERROR ''failed to upload''
                    else Log INFO ''Upload successful'')
          in fst (upload_updates e s) = Ok ()
             \<and> trace (snd (upload_updates e s))
                 = trace s @ [ev1, l1] @ (if autopublish u then [ev2, l2] else [])
             \<and> return_code (snd (upload_updates e s))
                 = (if r1 \<noteq> None \<or> (autopublish u \<and> r2 \<noteq> None) then 2 else return_code s)
             \<and> (r1 \<noteq> None \<or> (autopublish u \<and> r2 \<noteq> None)
                \<longrightarrow> Log ERROR ''failed to upload'' \<in> set (trace (snd (upload_updates e s))))
             \<and> (autopublish u
                \<longrightarrow> length (transfers (snd (upload_updates e s)))
                    = length (transfers s) + 2))"
    if "is_nightly e" "update (config e) = Some u"
    unfolding Let_def
    by (auto simp: upload_updates_nightly [OF that] update_rsync_props update_rsync_transfers)
  show ?thesis using mk sg xml up by blast
qed

lemma demo_broken_simps:
  "is_nightly demo_nightly_broken_env"
  "update (config demo_nightly_broken_env) = Some demo_update_cfg"
  "abs_dirs demo_nightly_broken_env = demo_dirs"
  "target (config demo_nightly_broken_env) = ''device-x''"
  "gecko_config_file (config demo_nightly_broken_env) = None"
  "exit_status demo_nightly_broken_env t ev = 1"
  "rsync_result demo_nightly_broken_env t ev = Some (- 1)"
  "\<not> update_xml_ok demo_nightly_broken_env t"
  "descriptor demo_nightly_broken_env f = Inr demo_gecko"
  "map_of (environ demo_nightly_broken_env) ''MOZ_SIGNING_SERVERS''
     = Some ''sign1.example.org:9110,sign2.example.org:9110''"
  by (simp_all add: demo_nightly_broken_env_def demo_nightly_env_def demo_env_def
      demo_config_def)

lemma demo_broken_paths:
  "platform_ini demo_nightly_broken_env
     = ''/builds/b2g/out/target/product/device-x/system/b2g/platform.ini''"
  "application_ini demo_nightly_broken_env
     = ''/builds/b2g/out/target/product/device-x/system/b2g/application.ini''"
  "updates_dir demo_nightly_broken_env = ''/builds/b2g/upload-updates''"
  by (simp_all add: platform_ini_def application_ini_def updates_dir_def demo_broken_simps
      demo_dirs_def path_join_def join2_def startswith_def endswith_def)

lemma demo_flaky_simps:
  "is_nightly demo_nightly_flaky_env"
  "update (config demo_nightly_flaky_env) = Some demo_update_cfg"
  "rsync_result demo_nightly_flaky_env t = second_transfer_fails"
  "updates_dir demo_nightly_flaky_env = ''/builds/b2g/upload-updates''"
  by (simp_all add: demo_nightly_flaky_env_def demo_nightly_env_def demo_env_def
      demo_config_def updates_dir_def demo_dirs_def)

theorem update_workflow_failures_witness:
  "fst (make_updates demo_nightly_broken_env demo_packaged) = Fatal 2
   \<and> length (commands (snd (make_updates demo_nightly_broken_env demo_packaged))) = 1
   \<and> fst (sign_updates demo_nightly_broken_env demo_packaged) = Fatal 2
   \<and> fst (make_update_xml demo_nightly_broken_env demo_packaged) = Fatal (- 1)
   \<and> fst (upload_updates demo_nightly_broken_env demo_packaged) = Ok ()
   \<and> return_code (snd (upload_updates demo_nightly_broken_env demo_packaged)) = 2
   \<and> length (transfers (snd (upload_updates demo_nightly_broken_env demo_packaged))) = 2
   \<and> fst (upload_updates demo_nightly_flaky_env demo_packaged) = Ok ()
   \<and> return_code (snd (upload_updates demo_nightly_flaky_env demo_packaged)) = 2
   \<and> Log INFO ''Upload successful''
       \<in> set (trace (snd (upload_updates demo_nightly_flaky_env demo_packaged)))
   \<and> Log ERROR ''failed to upload''
       \<in> set (trace (snd (upload_updates demo_nightly_flaky_env demo_packaged)))"
proof -
  let ?e = demo_nightly_broken_env
  let ?s1 = "demo_packaged\<lparr>gecko_config := Some demo_gecko\<rparr>"
  let ?s2 = "emit (RunCommand update_command (Some (work_dir (abs_dirs ?e))))
               (write_userconfig ?e ?s1)"
  have l: "load_gecko_config ?e demo_packaged = (Ok demo_gecko, ?s1)"
    by (simp add: load_gecko_config_def demo_broken_simps demo_packaged_def demo_state_def)
  have r: "run_build_command ?e demo_gecko update_command (write_userconfig ?e ?s1) = (Ok 1, ?s2)"
    by (simp add: run_build_command_def run_command_def demo_broken_simps demo_gecko_def)
  have f: "files demo_packaged (platform_ini ?e) = Some demo_platform_ini"
    "files demo_packaged (application_ini ?e) = Some demo_application_ini"
    by (simp_all add: demo_broken_paths demo_packaged_def)
  have c: "commands ?s2 = [RunCommand update_command (Some (work_dir (abs_dirs ?e)))]"
    by (simp add: commands_def emit_def write_userconfig_def write_to_file_def
        demo_packaged_def demo_state_def)
  have t: "transfers demo_packaged = []" "commands (emit (Log FATAL m) s) = commands s" for m s
    by (simp_all add: transfers_def commands_def emit_def demo_packaged_def demo_state_def)
  have a: "fst (make_updates ?e demo_packaged) = Fatal 2
   \<and> length (commands (snd (make_updates ?e demo_packaged))) = 1
   \<and> fst (sign_updates ?e demo_packaged) = Fatal 2
   \<and> fst (make_update_xml ?e demo_packaged) = Fatal (- 1)
   \<and> fst (upload_updates ?e demo_packaged) = Ok ()
   \<and> return_code (snd (upload_updates ?e demo_packaged)) = 2
   \<and> length (transfers (snd (upload_updates ?e demo_packaged))) = 2"
    using update_workflow_failures [where e = ?e and s = demo_packaged and g = demo_gecko
      and ?s1.0 = ?s1 and retval = 1 and ?s2.0 = ?s2 and u = demo_update_cfg
      and pdata = demo_platform_ini and adata = demo_application_ini]
      l r f c t
    by (simp add: demo_broken_simps demo_update_cfg_def Let_def)
  have b: "fst (upload_updates demo_nightly_flaky_env demo_packaged) = Ok ()
   \<and> return_code (snd (upload_updates demo_nightly_flaky_env demo_packaged)) = 2
   \<and> Log INFO ''Upload successful''
       \<in> set (trace (snd (upload_updates demo_nightly_flaky_env demo_packaged)))
   \<and> Log ERROR ''failed to upload''
       \<in> set (trace (snd (upload_updates demo_nightly_flaky_env demo_packaged)))"
    using update_workflow_failures [where e = demo_nightly_flaky_env and s = demo_packaged
      and u = demo_update_cfg]
    by (simp add: demo_flaky_simps demo_update_cfg_def Let_def)
  show ?thesis using a b by simp
qed

text \<open>
  C2, as stated, fails: in a nightly run with update publishing configured, both
  transfers of \<^verbatim>\<open>upload_updates\<close> report non-success, and the stage returns normally after
  making both.
\<close>

theorem upload_updates_failure_not_fatal:
  "is_nightly demo_nightly_broken_env
   \<and> rsync_result demo_nightly_broken_env (trace demo_packaged)
        (RsyncUploadDirectory ''/builds/b2g/upload-updates''
           (Some ''/home/cltbld/.ssh/b2gbld_dsa'') (Some ''b2gbld'') (Some ''update.example.org'')
           ''/data/update/nightly'' (Some [''-azv'', ''--exclude=update.xml''])) = Some (- 1)
   \<and> fst (upload_updates demo_nightly_broken_env demo_packaged) = Ok ()
   \<and> transfers (snd (upload_updates demo_nightly_broken_env demo_packaged))
       = [RsyncUploadDirectory ''/builds/b2g/upload-updates''
            (Some ''/home/cltbld/.ssh/b2gbld_dsa'') (Some ''b2gbld'') (Some ''update.example.org'')
            ''/data/update/nightly'' (Some [''-azv'', ''--exclude=update.xml'']),
          RsyncUploadDirectory ''/builds/b2g/upload-updates''
            (Some ''/home/cltbld/.ssh/b2gbld_dsa'') (Some ''b2gbld'') (Some ''update.example.org'')
            ''/data/update/nightly'' None]"
proof -
  have "transfers demo_packaged = []"
    by (simp add: transfers_def demo_packaged_def demo_state_def)
  then show ?thesis
    by (simp add: upload_updates_nightly [OF demo_broken_simps(1,2)] update_rsync_transfers
        demo_broken_simps demo_broken_paths demo_update_cfg_def)
qed

section \<open>Artifact staging\<close>

lemma stage_files_trace:
  "trace (stage_files e fs s) = trace s @ concat (map (staging_events (is_nightly e)) fs)"
  by (induction fs arbitrary: s)
     (simp_all add: staging_events_def run_command_def info_def copy_to_upload_dir_def emit_def)

lemma staged_append: "concat (map staged_of (xs @ ys)) = concat (map staged_of xs) @ concat (map staged_of ys)"
  by simp

lemma staged_staging_events:
  "concat (map staged_of (concat (map (staging_events n) fs))) = staged_names n fs"
  by (induction fs) (auto simp: staging_events_def staged_names_def)

lemma stage_files_staged:
  "staged (stage_files e fs s) = staged s @ staged_names (is_nightly e) fs"
  by (simp add: staged_def stage_files_trace staged_staging_events)

lemma prep_upload_Ok:
  assumes "prep_upload e s = (Ok (), s')"
  shows "\<exists>g s2 fs. upload_file_list e g = Ok fs
           \<and> s' = copy_logs_to_upload_dir
                    (stage_files e fs (info ''copying files to upload directory'' s2))"
  using assms
  by (auto simp: prep_upload_def split: prod.splits result.splits if_splits)


lemma demo_images_prep:
  "is_nightly demo_images_env" "\<not> is_nightly demo_env"
  "upload_file_list demo_images_env demo_gecko
     = Ok [''/builds/b2g/out/target/product/device-x/system/build.prop'',
           ''/builds/b2g/out/target/product/device-x/system.img'']"
  "upload_file_list demo_env demo_gecko
     = Ok [''/builds/b2g/out/target/product/device-x/system/build.prop'',
           ''/builds/b2g/out/target/product/device-x/system.img'']"
  by (simp_all add: demo_images_env_def demo_env_def upload_file_list_def demo_gecko_def
      build_prop_def output_dir_def demo_dirs_def demo_config_def path_join_def join2_def
      startswith_def endswith_def)



section \<open>The file set of the staging stage\<close>

lemma join2_build_prop: "endswith (join2 p ''build.prop'') ''build.prop''"
  by (simp add: join2_def startswith_def endswith_def)

lemma build_prop_name:
  "endswith (build_prop e) ''build.prop''" "\<not> endswith (build_prop e) ''.img''"
proof -
  have b: "build_prop e = join2 (join2 (output_dir e) ''system'') ''build.prop''"
    by (simp add: build_prop_def path_join_def)
  show 1: "endswith (build_prop e) ''build.prop''" by (simp only: b join2_build_prop)
  then obtain n where "drop n (build_prop e) = ''build.prop''" "length (build_prop e) = n + 10"
    by (auto simp: endswith_def intro: that [of "length (build_prop e) - 10"])
  then have "drop 6 (drop n (build_prop e)) = ''prop''" by simp
  then have "drop (6 + n) (build_prop e) = ''prop''" by simp
  then show "\<not> endswith (build_prop e) ''.img''"
    using \<open>length (build_prop e) = n + 10\<close> by (simp add: endswith_def)
qed

lemma prep_upload_stages_build_prop:
  assumes "prep_upload e s = (Ok (), s')"
  shows "build_prop e \<in> set (staged s')"
proof -
  from prep_upload_Ok [OF assms] obtain g s2 fs where
    g: "upload_file_list e g = Ok fs" and
    s': "s' = copy_logs_to_upload_dir
                (stage_files e fs (info ''copying files to upload directory'' s2))"
    by blast
  from g obtain rest where fs: "fs = build_prop e # rest"
    by (auto simp: upload_file_list_def split: result.splits)
  have "staged s' = staged (stage_files e fs (info ''copying files to upload directory'' s2))"
    by (simp add: s' staged_def copy_logs_to_upload_dir_def emit_def)
  also have "\<dots> = staged (info ''copying files to upload directory'' s2)
                 @ staged_names (is_nightly e) fs"
    by (rule stage_files_staged)
  finally show ?thesis
    by (simp add: fs staged_names_def build_prop_name)
qed

text \<open>
  C9. The file list of the staging loop always starts with
  \<^verbatim>\<open>out/target/product/<target>/system/build.prop\<close> under the work directory, followed by
  what the descriptor's upload patterns match; with no pattern at all it is that one file.
  The file does not end in \<^verbatim>\<open>.img\<close>, so a run of \<^verbatim>\<open>prep_upload\<close> that completes has staged
  it, nightly or not.
\<close>

theorem build_prop_always_listed:
  "(upload_file_list e g = Ok fs
      \<longrightarrow> (\<exists>matched. fs = build_prop e # matched
                     \<and> expand_patterns e (upload_files g) = Ok matched))
   \<and> (upload_files g = [] \<longrightarrow> upload_file_list e g = Ok [build_prop e])
   \<and> build_prop e =
       path_join (work_dir (abs_dirs e))
         [''out'', ''target'', ''product'', target (config e), ''system'', ''build.prop'']
   \<and> (prep_upload e s = (Ok (), s') \<longrightarrow> build_prop e \<in> set (staged s'))"
proof -
  have 1: "\<exists>matched. fs = build_prop e # matched
                     \<and> expand_patterns e (upload_files g) = Ok matched"
    if "upload_file_list e g = Ok fs"
    using that by (auto simp: upload_file_list_def split: result.splits)
  have 2: "upload_file_list e g = Ok [build_prop e]" if "upload_files g = []"
    using that by (simp add: upload_file_list_def)
  have 3: "build_prop e =
       path_join (work_dir (abs_dirs e))
         [''out'', ''target'', ''product'', target (config e), ''system'', ''build.prop'']"
    by (simp add: build_prop_def output_dir_def path_join_def)
  show ?thesis using 1 2 3 prep_upload_stages_build_prop by blast
qed

theorem build_prop_always_listed_witness:
  "upload_file_list demo_env (demo_gecko\<lparr>upload_files := []\<rparr>)
     = Ok [''/builds/b2g/out/target/product/device-x/system/build.prop'']
   \<and> upload_file_list demo_env demo_gecko
     = Ok [''/builds/b2g/out/target/product/device-x/system/build.prop'',
           ''/builds/b2g/out/target/product/device-x/system.img'']
   \<and> fst (prep_upload demo_env demo_state) = Ok ()
   \<and> ''/builds/b2g/out/target/product/device-x/system/build.prop''
       \<in> set (staged (snd (prep_upload demo_env demo_state)))"
proof -
  have b: "build_prop demo_env = ''/builds/b2g/out/target/product/device-x/system/build.prop''"
    by (simp add: build_prop_def output_dir_def demo_env_def demo_dirs_def demo_config_def
        path_join_def join2_def startswith_def endswith_def)
  have d: "descriptor demo_env f = Inr demo_gecko" for f by (simp add: demo_env_def)
  have z: "expand_patterns demo_env (zip_files demo_gecko) = Ok []"
    by (simp add: demo_gecko_def)
  have g0: "gecko_config (rmtree p demo_state) = None" for p
    by (simp add: rmtree_def emit_def demo_state_def)
  have p: "fst (prep_upload demo_env demo_state) = Ok ()"
    by (simp add: prep_upload_def load_gecko_config_def g0 d z demo_images_prep)
  then have p': "prep_upload demo_env demo_state = (Ok (), snd (prep_upload demo_env demo_state))"
    by (metis prod.collapse)
  note th = build_prop_always_listed [where e = demo_env
      and g = "demo_gecko\<lparr>upload_files := []\<rparr>"
      and s = demo_state and s' = "snd (prep_upload demo_env demo_state)"]
  from th have 1: "upload_file_list demo_env (demo_gecko\<lparr>upload_files := []\<rparr>)
     = Ok [build_prop demo_env]"
    by simp
  from th p' have 2: "build_prop demo_env \<in> set (staged (snd (prep_upload demo_env demo_state)))"
    by blast
  from 1 2 p show ?thesis by (simp add: b demo_images_prep)
qed

section \<open>The order of the selected stages\<close>

lemma run_stages_started:
  "prefix (fst (snd (run_stages table as e s))) as
   \<and> (fst (run_stages table as e s) = Ok () \<longrightarrow> fst (snd (run_stages table as e s)) = as)"
proof (induction as arbitrary: s)
  case Nil
  show ?case by simp
next
  case (Cons a as)
  obtain r s1 where t: "table a e s = (r, s1)" by (cases "table a e s") auto
  show ?case
  proof (cases r)
    case (Ok u)
    obtain r2 started s2 where rs: "run_stages table as e s1 = (r2, started, s2)"
      by (cases "run_stages table as e s1") auto
    with Cons [of s1] t Ok show ?thesis by simp
  next
    case (Fatal c)
    with t show ?thesis by simp
  next
    case (Raise x)
    with t show ?thesis by simp
  qed
qed

text \<open>
  C8. For every catalogue and every selection, the stages selected for execution are the
  catalogue restricted to the selection: a subsequence of the catalogue, in catalogue
  order whatever the order of the selection. The engine starts them in that order, all of
  them when no stage aborts, and a prefix of them otherwise. The empty selection runs
  nothing, the whole catalogue runs as listed, and the default selection of
  \<^verbatim>\<open>B2GBuild\<close> runs as listed.
\<close>

theorem selected_in_catalogue_order:
  "subseq (selected_stages catalogue selection) catalogue
   \<and> selected_stages catalogue selection = filter (\<lambda>a. a \<in> set selection) catalogue
   \<and> selected_stages catalogue (rev selection) = selected_stages catalogue selection
   \<and> prefix (fst (snd (run_pipeline table catalogue selection e s)))
        (selected_stages catalogue selection)
   \<and> (fst (run_pipeline table catalogue selection e s) = Ok ()
      \<longrightarrow> fst (snd (run_pipeline table catalogue selection e s))
          = selected_stages catalogue selection)
   \<and> selected_stages catalogue [] = []
   \<and> selected_stages catalogue catalogue = catalogue
   \<and> selected_stages all_actions default_actions = default_actions"
proof -
  have d: "selected_stages all_actions default_actions = default_actions"
    by (simp add: selected_stages_def all_actions_def default_actions_def)
  show ?thesis
    using run_stages_started [of table "selected_stages catalogue selection" e s] d
    by (simp add: selected_stages_def run_pipeline_def)
qed

theorem selected_in_catalogue_order_witness:
  "selected_stages all_actions [''upload-updates'', ''upload'', ''unpack-gonk'']
     = [''unpack-gonk'', ''upload'', ''upload-updates'']
   \<and> fst (run_pipeline demo_table all_actions [''upload-updates'', ''upload''] demo_env demo_built)
     = Ok ()
   \<and> fst (snd (run_pipeline demo_table all_actions [''upload-updates'', ''upload'']
                  demo_env demo_built))
     = [''upload'', ''upload-updates'']"
proof -
  have 1: "selected_stages all_actions [''upload-updates'', ''upload'', ''unpack-gonk'']
     = [''unpack-gonk'', ''upload'', ''upload-updates'']"
    by (simp add: selected_stages_def all_actions_def)
  have 2: "selected_stages all_actions [''upload-updates'', ''upload'']
     = [''upload'', ''upload-updates'']"
    by (simp add: selected_stages_def all_actions_def)
  have f: "files demo_built (platform_ini demo_env) = Some demo_platform_ini"
    by (simp add: demo_platform_path demo_built_def)
  have nt: "\<not> enable_try_uploads (config demo_env)" "\<not> is_nightly demo_env"
    by (simp_all add: demo_env_def demo_config_def)
  have p: "upload_path demo_env demo_built
     = Ok (dated_path (opt_str (upload_remote_basepath (config demo_env))) ''main''
             (target (config demo_env)) ''20240101010101'')"
    by (simp add: upload_path_def nt demo_branch query_buildid_def read_from_file_def f
        demo_buildid py_str_def opt_str_def)
  have u: "fst (upload demo_env demo_built) = Ok ()"
    using upload_transfers [OF p] by simp
  have uu: "fst (upload_updates demo_env st) = Ok ()" for st
    by (simp add: upload_updates_def nt)
  obtain s1 where s1: "upload demo_env demo_built = (Ok (), s1)"
    using u by (cases "upload demo_env demo_built") auto
  obtain s2 where s2: "upload_updates demo_env s1 = (Ok (), s2)"
    using uu [of s1] by (cases "upload_updates demo_env s1") auto
  have 3: "fst (run_pipeline demo_table all_actions [''upload-updates'', ''upload'']
                  demo_env demo_built) = Ok ()"
    by (simp add: run_pipeline_def 2 demo_table_def s1 s2)
  from selected_in_catalogue_order [where catalogue = all_actions
      and selection = "[''upload-updates'', ''upload'']" and table = demo_table
      and e = demo_env and s = demo_built] 1 2 3
  show ?thesis by simp
qed

end
